theory Spec2Isabelle
  imports Main
begin

text \<open>
  The command-line client \<open>flam\<close> of a package registry: \<open>login\<close>, \<open>publish\<close>, \<open>search\<close>
  and \<open>install\<close>, as \<open>src/flam.js\<close> defines them. The three other copies of the program
  (\<open>src/unnamed/part_000\<close>, \<open>part_001\<close>, \<open>part_002\<close>) have the same four actions; they
  differ in how the HTTP client is set up, which is not modelled, and \<open>part_002\<close> differs
  in the manifest block of publish, which is modelled beside the one of \<open>src/flam.js\<close>.

  One run of one action is a function from the world before to the world after. The
  world is the file system, the list of the calls of \<open>axios\<close> made (a call is listed
  whether or not anything reached the registry), and the console. What the registry
  answers and what the disk does are parameters of the run (\<open>env\<close>). An \<open>await\<close> that
  rejects, and a \<open>throw\<close>, are the \<open>Inl\<close> branch of a sum; \<open>try/catch\<close> is the case
  distinction on it.

  Outside the model: argument parsing (commander), colours (chalk), symbolic links, a
  response body that breaks off before its end, and a read error in the middle of the
  archive that publish uploads.
\<close>

section \<open>JavaScript values\<close>

text \<open>
  The values the client handles are JSON documents (responses of the registry, the
  configuration file, the manifest) and \<open>undefined\<close>, the result of reading a property
  that is not there. Strings are byte strings (UTF-8); numbers are the integral ones. An
  object is the list of its properties; a name listed twice stands for its first entry.
\<close>

datatype jsval =
    Undefined
  | Null
  | Bool bool
  | Num int
  | Str string
  | Arr "jsval list"
  | Obj "(string \<times> jsval) list"

text \<open>
  What a failed request carries as \<open>error.response.data\<close>: the parsed body, or, for a
  request made with \<open>responseType: 'stream'\<close>, the unread body stream.
\<close>

datatype resp_data = Parsed jsval | Body_stream string

text \<open>
  A thrown error. \<open>response\<close> is \<open>error.response\<close> (present on an axios error for which
  the server answered, \<open>undefined\<close> on every other error), \<open>message\<close> is \<open>error.message\<close>.
\<close>

datatype js_error = JsError (response: "resp_data option") (message: string)

fun join_with :: "string \<Rightarrow> string list \<Rightarrow> string" where
  "join_with sep [] = []"
| "join_with sep [x] = x"
| "join_with sep (x # y # ys) = x @ sep @ join_with sep (y # ys)"

definition digit_char :: "nat \<Rightarrow> char" where
  "digit_char d = (if d < 10 then ''0123456789'' ! d else CHR ''?'')"

fun show_nat :: "nat \<Rightarrow> string" where
  "show_nat n = (if n < 10 then [digit_char n] else show_nat (n div 10) @ [digit_char (n mod 10)])"

declare show_nat.simps [simp del]

definition show_int :: "int \<Rightarrow> string" where
  "show_int i = (if i < 0 then ''-'' @ show_nat (nat (- i)) else show_nat (nat i))"

text \<open>String conversion, as a template literal \<open>`${v}`\<close> performs it.\<close>

fun to_string :: "jsval \<Rightarrow> string" where
  "to_string Undefined = ''undefined''"
| "to_string Null = ''null''"
| "to_string (Bool b) = (if b then ''true'' else ''false'')"
| "to_string (Num n) = show_int n"
| "to_string (Str s) = s"
| "to_string (Arr xs) =
     join_with '','' (map (\<lambda>v. case v of Undefined \<Rightarrow> [] | Null \<Rightarrow> [] | _ \<Rightarrow> to_string v) xs)"
| "to_string (Obj props) = ''[object Object]''"

text \<open>Truthiness, as \<open>!v\<close> and \<open>v || w\<close> test it.\<close>

fun truthy :: "jsval \<Rightarrow> bool" where
  "truthy Undefined = False"
| "truthy Null = False"
| "truthy (Bool b) = b"
| "truthy (Num n) = (n \<noteq> 0)"
| "truthy (Str s) = (s \<noteq> [])"
| "truthy (Arr xs) = True"
| "truthy (Obj props) = True"

definition or_else :: "jsval \<Rightarrow> jsval \<Rightarrow> jsval" where
  "or_else a b = (if truthy a then a else b)"

text \<open>
  Reading the property \<open>k\<close> of a value that is neither \<open>undefined\<close> nor \<open>null\<close>. Of the
  built-in properties only \<open>length\<close> is read by the client, and only to compare it with
  0; every other name is an own property of an object or absent.
\<close>

fun get_prop :: "jsval \<Rightarrow> string \<Rightarrow> jsval" where
  "get_prop (Obj props) k = (case map_of props k of None \<Rightarrow> Undefined | Some v \<Rightarrow> v)"
| "get_prop (Arr xs) k = (if k = ''length'' then Num (int (length xs)) else Undefined)"
| "get_prop (Str s) k = (if k = ''length'' then Num (int (length s)) else Undefined)"
| "get_prop v k = Undefined"

definition nullish :: "jsval \<Rightarrow> bool" where
  "nullish v = (case v of Undefined \<Rightarrow> True | Null \<Rightarrow> True | _ \<Rightarrow> False)"

text \<open>\<open>v.k\<close>: a TypeError when \<open>v\<close> is \<open>undefined\<close> or \<open>null\<close>.\<close>

definition get_member :: "jsval \<Rightarrow> string \<Rightarrow> js_error + jsval" where
  "get_member v k =
     (if nullish v
      then Inl (JsError None
             (''Cannot read properties of '' @ to_string v @ '' (reading '' @ [CHR 0x27] @ k @
               [CHR 0x27] @ '')''))
      else Inr (get_prop v k))"

text \<open>\<open>error.response?.data?.error\<close>\<close>

fun error_field :: "js_error \<Rightarrow> jsval" where
  "error_field (JsError None m) = Undefined"
| "error_field (JsError (Some (Body_stream b)) m) = Undefined"
| "error_field (JsError (Some (Parsed d)) m) = (if nullish d then Undefined else get_prop d ''error'')"


section \<open>Paths (Node's POSIX \<open>path\<close> module)\<close>

fun split_on :: "char \<Rightarrow> string \<Rightarrow> string list" where
  "split_on c [] = [[]]"
| "split_on c (x # xs) =
     (if x = c then [] # split_on c xs
      else (case split_on c xs of [] \<Rightarrow> [[x]] | y # ys \<Rightarrow> (x # y) # ys))"

text \<open>
  One segment of \<open>normalizeString\<close>: empty segments and \<open>.\<close> are dropped, \<open>..\<close> removes
  the segment before it, and is kept only above the start of a relative path.
\<close>

definition normalize_step :: "bool \<Rightarrow> string list \<Rightarrow> string \<Rightarrow> string list" where
  "normalize_step allowAboveRoot res seg =
     (if seg = [] then res
      else if seg = ''.'' then res
      else if seg = ''..'' then
        (if res \<noteq> [] \<and> last res \<noteq> ''..'' then butlast res
         else if allowAboveRoot then res @ [''..'']
         else res)
      else res @ [seg])"

definition normalizeString :: "string \<Rightarrow> bool \<Rightarrow> string list" where
  "normalizeString p allowAboveRoot =
     foldl (normalize_step allowAboveRoot) [] (split_on CHR ''/'' p)"

definition path_normalize :: "string \<Rightarrow> string" where
  "path_normalize p =
     (if p = [] then ''.''
      else
        let isAbsolute = (hd p = CHR ''/'');
            trailingSeparator = (last p = CHR ''/'');
            res = join_with ''/'' (normalizeString p (\<not> isAbsolute))
        in if res = [] then (if isAbsolute then ''/'' else if trailingSeparator then ''./'' else ''.'')
           else (if isAbsolute then ''/'' else []) @ res @ (if trailingSeparator then ''/'' else []))"

definition path_join :: "string list \<Rightarrow> string" where
  "path_join args =
     (let parts = filter (\<lambda>arg. arg \<noteq> []) args
      in if parts = [] then ''.'' else path_normalize (join_with ''/'' parts))"

text \<open>The directory holding a normalised path, and the chain of directories leading to it.\<close>

definition parent_dir :: "string \<Rightarrow> string" where
  "parent_dir p =
     (let segs = split_on CHR ''/'' p
      in if length segs \<le> 1 then ''.''
         else (let d = join_with ''/'' (butlast segs) in if d = [] then ''/'' else d))"

fun nonempty_prefixes :: "'a list \<Rightarrow> 'a list list" where
  "nonempty_prefixes [] = []"
| "nonempty_prefixes (x # xs) = [x] # map ((#) x) (nonempty_prefixes xs)"

definition dir_chain :: "string \<Rightarrow> string list" where
  "dir_chain p =
     filter (\<lambda>d. d \<noteq> [])
       (map (join_with ''/'') (nonempty_prefixes (split_on CHR ''/'' p)))"

text \<open>
  A segment that names a file or directory: not empty, not \<open>.\<close> or \<open>..\<close>, no separator.
\<close>

definition plain_segment :: "string \<Rightarrow> bool" where
  "plain_segment s = (s \<noteq> [] \<and> s \<noteq> ''.'' \<and> s \<noteq> ''..'' \<and> CHR ''/'' \<notin> set s)"

text \<open>
  The segment lists that \<open>normalizeString\<close> produces, and leaves as they are: plain
  segments, after a run of \<open>..\<close> that only a relative path may start with.
\<close>

inductive settled :: "bool \<Rightarrow> string list \<Rightarrow> bool" where
  settled_Nil: "settled up []"
| settled_plain: "settled up res \<Longrightarrow> seg \<noteq> [] \<Longrightarrow> seg \<noteq> ''.'' \<Longrightarrow> seg \<noteq> ''..'' \<Longrightarrow>
     settled up (res @ [seg])"
| settled_up: "settled up res \<Longrightarrow> up \<Longrightarrow> res = [] \<or> last res = ''..'' \<Longrightarrow>
     settled up (res @ [''..''])"

section \<open>The environment: registry, file system, console\<close>

datatype http_method = GET | POST

datatype form_value = Field jsval | File_stream string

datatype req_body = No_body | Json_body jsval | Form_body "(string \<times> form_value) list"

text \<open>
  A call of \<open>axios.get\<close> or \<open>axios.post\<close>. \<open>headers\<close> holds the headers the client sets
  itself; the multipart boundary header of \<open>form.getHeaders()\<close> is left out.
\<close>

record request =
  verb :: http_method
  url :: string
  headers :: "(string \<times> string) list"
  payload :: req_body
  stream_response :: bool

text \<open>
  What comes back: no answer at all (connection refused, DNS failure, an upload whose
  body cannot be read), with the transport's message, or a status code and a body.
\<close>

datatype 'b reply = NoReply string | Reply nat 'b

text \<open>
  A file is abstracted to what \<open>fse.readJson\<close> makes of it: \<open>JsonDoc v\<close> is a file whose
  text is a JSON document that parses to \<open>v\<close>; \<open>Bytes b\<close> is a file holding the bytes
  \<open>b\<close>, which are not a JSON document.
\<close>

datatype content = JsonDoc jsval | Bytes string

datatype node = File content | Dir

type_synonym filesystem = "string \<Rightarrow> node option"

text \<open>
  Everything the client does not decide. The registry answers a request knowing the
  requests made before it in this run. \<open>read_denied\<close> and \<open>write_denied\<close> are the
  permissions of a path; \<open>write_fault p = Some (k, msg)\<close> makes a write to \<open>p\<close> fail
  with \<open>msg\<close> once \<open>k\<close> bytes are on disk. \<open>nullish_as_text\<close> says which form-data is
  installed: from version 4.0.3 on, \<open>form.append\<close> writes \<open>undefined\<close> and \<open>null\<close> as
  text; before, it throws on them.
\<close>

record env =
  homedir :: string
  cwd :: string
  server :: "request list \<Rightarrow> request \<Rightarrow> jsval reply"
  server_stream :: "request list \<Rightarrow> request \<Rightarrow> string reply"
  read_denied :: "string \<Rightarrow> bool"
  write_denied :: "string \<Rightarrow> bool"
  write_fault :: "string \<Rightarrow> (nat \<times> string) option"
  nullish_as_text :: bool

datatype channel = Stdout | Stderr

record world =
  files :: filesystem
  requests :: "request list"
  console :: "(channel \<times> string) list"

definition console_log :: "world \<Rightarrow> string \<Rightarrow> world" where
  "console_log w s = w\<lparr>console := console w @ [(Stdout, s)]\<rparr>"

definition console_error :: "world \<Rightarrow> string \<Rightarrow> world" where
  "console_error w s = w\<lparr>console := console w @ [(Stderr, s)]\<rparr>"

subsection \<open>axios\<close>

text \<open>A status outside 200..299 rejects, with the body as \<open>error.response.data\<close>.\<close>

definition http_ok :: "nat \<Rightarrow> bool" where
  "http_ok status = (200 \<le> status \<and> status < 300)"

definition axios_settle :: "jsval reply \<Rightarrow> js_error + jsval" where
  "axios_settle r =
     (case r of
        NoReply msg \<Rightarrow> Inl (JsError None msg)
      | Reply status b \<Rightarrow>
          if http_ok status then Inr b
          else Inl (JsError (Some (Parsed b))
                 (''Request failed with status code '' @ show_nat status)))"

definition axios_settle_stream :: "string reply \<Rightarrow> js_error + string" where
  "axios_settle_stream r =
     (case r of
        NoReply msg \<Rightarrow> Inl (JsError None msg)
      | Reply status b \<Rightarrow>
          if http_ok status then Inr b
          else Inl (JsError (Some (Body_stream b))
                 (''Request failed with status code '' @ show_nat status)))"

definition axios_request :: "env \<Rightarrow> world \<Rightarrow> request \<Rightarrow> (js_error + jsval) \<times> world" where
  "axios_request e w req =
     (axios_settle (server e (requests w) req), w\<lparr>requests := requests w @ [req]\<rparr>)"

definition axios_request_stream :: "env \<Rightarrow> world \<Rightarrow> request \<Rightarrow> (js_error + string) \<times> world" where
  "axios_request_stream e w req =
     (axios_settle_stream (server_stream e (requests w) req), w\<lparr>requests := requests w @ [req]\<rparr>)"

definition get_request :: "string \<Rightarrow> request" where
  "get_request u =
     \<lparr>verb = GET, url = u, headers = [], payload = No_body, stream_response = False\<rparr>"

definition get_stream_request :: "string \<Rightarrow> request" where
  "get_stream_request u =
     \<lparr>verb = GET, url = u, headers = [], payload = No_body, stream_response = True\<rparr>"

definition post_request :: "string \<Rightarrow> req_body \<Rightarrow> (string \<times> string) list \<Rightarrow> request" where
  "post_request u b hs =
     \<lparr>verb = POST, url = u, headers = hs, payload = b, stream_response = False\<rparr>"

definition axios_get :: "env \<Rightarrow> world \<Rightarrow> string \<Rightarrow> (js_error + jsval) \<times> world" where
  "axios_get e w u = axios_request e w (get_request u)"

definition axios_get_stream :: "env \<Rightarrow> world \<Rightarrow> string \<Rightarrow> (js_error + string) \<times> world" where
  "axios_get_stream e w u = axios_request_stream e w (get_stream_request u)"

definition axios_post ::
  "env \<Rightarrow> world \<Rightarrow> string \<Rightarrow> req_body \<Rightarrow> (string \<times> string) list \<Rightarrow> (js_error + jsval) \<times> world" where
  "axios_post e w u b hs = axios_request e w (post_request u b hs)"

subsection \<open>fs-extra\<close>

definition sys_error :: "string \<Rightarrow> string \<Rightarrow> string \<Rightarrow> js_error" where
  "sys_error what syscall p =
     JsError None (what @ '', '' @ syscall @ '' '' @ [CHR 0x27] @ p @ [CHR 0x27])"

definition hex_digit :: "nat \<Rightarrow> char" where
  "hex_digit d = (if d < 16 then ''0123456789abcdef'' ! d else CHR ''?'')"

definition json_escape_char :: "char \<Rightarrow> string" where
  "json_escape_char c =
     (if c = CHR 0x22 then [CHR 0x5C, CHR 0x22]
      else if c = CHR 0x5C then [CHR 0x5C, CHR 0x5C]
      else if c = CHR 0x08 then [CHR 0x5C, CHR ''b'']
      else if c = CHR 0x09 then [CHR 0x5C, CHR ''t'']
      else if c = CHR 0x0A then [CHR 0x5C, CHR ''n'']
      else if c = CHR 0x0C then [CHR 0x5C, CHR ''f'']
      else if c = CHR 0x0D then [CHR 0x5C, CHR ''r'']
      else if (of_char c :: nat) < 32
        then [CHR 0x5C, CHR ''u'', CHR ''0'', CHR ''0'',
              hex_digit (of_char c div 16), hex_digit (of_char c mod 16)]
      else [c])"

definition json_quote :: "string \<Rightarrow> string" where
  "json_quote s = [CHR 0x22] @ concat (map json_escape_char s) @ [CHR 0x22]"

text \<open>\<open>JSON.stringify\<close>: a property whose value is \<open>undefined\<close> is left out.\<close>

fun json_text :: "jsval \<Rightarrow> string" where
  "json_text Undefined = ''null''"
| "json_text Null = ''null''"
| "json_text (Bool b) = (if b then ''true'' else ''false'')"
| "json_text (Num n) = show_int n"
| "json_text (Str s) = json_quote s"
| "json_text (Arr xs) = ''['' @ join_with '','' (map json_text xs) @ '']''"
| "json_text (Obj props) =
     ''{'' @ join_with '',''
        (map (\<lambda>(k, v). json_quote k @ '':'' @ json_text v)
          (filter (\<lambda>(k, v). v \<noteq> Undefined) props)) @ ''}''"

text \<open>What \<open>JSON.parse\<close> reads back from the text of \<open>JSON.stringify\<close>.\<close>

fun json_reparse :: "jsval \<Rightarrow> jsval" where
  "json_reparse Undefined = Null"
| "json_reparse (Arr xs) = Arr (map json_reparse xs)"
| "json_reparse (Obj props) =
     Obj (map (\<lambda>(k, v). (k, json_reparse v)) (filter (\<lambda>(k, v). v \<noteq> Undefined) props))"
| "json_reparse v = v"

definition is_dir :: "filesystem \<Rightarrow> string \<Rightarrow> bool" where
  "is_dir f p = (if p = ''/'' then True else f p = Some Dir)"

definition readJson :: "env \<Rightarrow> filesystem \<Rightarrow> string \<Rightarrow> js_error + jsval" where
  "readJson e f p =
     (case f p of
        None \<Rightarrow> Inl (sys_error ''ENOENT: no such file or directory'' ''open'' p)
      | Some Dir \<Rightarrow> Inl (JsError None ''EISDIR: illegal operation on a directory, read'')
      | Some (File c) \<Rightarrow>
          if read_denied e p then Inl (sys_error ''EACCES: permission denied'' ''open'' p)
          else (case c of
                  Bytes b \<Rightarrow> Inl (JsError None (p @ '': Unexpected token in JSON''))
                | JsonDoc v \<Rightarrow> Inr v))"

text \<open>
  Opening \<open>p\<close> for reading, as \<open>fse.createReadStream\<close> does. The operating system
  walks the path from the root, or from the working directory, one segment at a time:
  every segment but the last must lead through a directory that exists. \<open>lookup_from\<close>
  gives the node reached, or the reason why there is none. A directory opens but cannot
  be read.
\<close>

fun lookup_from :: "filesystem \<Rightarrow> string \<Rightarrow> string list \<Rightarrow> string + string" where
  "lookup_from f cur [] = Inr cur"
| "lookup_from f cur (seg # segs) =
     (if seg = [] then lookup_from f cur segs
      else if \<not> is_dir f cur
        then Inl (if f cur = None then ''ENOENT: no such file or directory''
                  else ''ENOTDIR: not a directory'')
      else if seg = ''.'' then lookup_from f cur segs
      else if seg = ''..'' then lookup_from f (parent_dir cur) segs
      else (let child = (if cur = ''/'' then cur @ seg else cur @ ''/'' @ seg)
            in if f child = None then Inl ''ENOENT: no such file or directory''
               else lookup_from f child segs))"

definition open_for_read :: "env \<Rightarrow> filesystem \<Rightarrow> string \<Rightarrow> js_error option" where
  "open_for_read e f p =
     (if p = [] then Some (sys_error ''ENOENT: no such file or directory'' ''open'' p)
      else
        (case lookup_from f (if hd p = CHR ''/'' then ''/'' else cwd e) (split_on CHR ''/'' p) of
           Inl what \<Rightarrow> Some (sys_error what ''open'' p)
         | Inr q \<Rightarrow>
             if is_dir f q
               then Some (JsError None ''EISDIR: illegal operation on a directory, read'')
             else if last p = CHR ''/''
               then Some (sys_error ''ENOTDIR: not a directory'' ''open'' p)
             else if f q = None
               then Some (sys_error ''ENOENT: no such file or directory'' ''open'' p)
             else if read_denied e q
               then Some (sys_error ''EACCES: permission denied'' ''open'' p)
             else None))"

text \<open>Opening \<open>p\<close> with flag \<open>w\<close>: the error, if any.\<close>

definition open_for_write :: "env \<Rightarrow> filesystem \<Rightarrow> string \<Rightarrow> js_error option" where
  "open_for_write e f p =
     (if \<not> is_dir f (parent_dir p)
        then Some (sys_error ''ENOENT: no such file or directory'' ''open'' p)
      else if f p = Some Dir
        then Some (sys_error ''EISDIR: illegal operation on a directory'' ''open'' p)
      else if write_denied e p
        then Some (sys_error ''EACCES: permission denied'' ''open'' p)
      else None)"

text \<open>
  Writing \<open>n\<close> bytes to \<open>p\<close>: the file is created or truncated by the open; a fault
  after \<open>k < n\<close> bytes leaves \<open>partial k\<close> behind, otherwise the file holds \<open>whole\<close>.
\<close>

definition write_file ::
  "env \<Rightarrow> filesystem \<Rightarrow> string \<Rightarrow> nat \<Rightarrow> (nat \<Rightarrow> content) \<Rightarrow> content \<Rightarrow> (js_error + unit) \<times> filesystem" where
  "write_file e f p n partial whole =
     (case open_for_write e f p of
        Some err \<Rightarrow> (Inl err, f)
      | None \<Rightarrow>
          (case write_fault e p of
             None \<Rightarrow> (Inr (), f(p \<mapsto> File whole))
           | Some (k, msg) \<Rightarrow>
               if k < n then (Inl (JsError None msg), f(p \<mapsto> File (partial k)))
               else (Inr (), f(p \<mapsto> File whole))))"

text \<open>
  \<open>fse.writeJson\<close> writes the text and a final newline. The text without the newline is
  already a JSON document; no shorter prefix of the text of an object is one.
\<close>

definition writeJson :: "env \<Rightarrow> filesystem \<Rightarrow> string \<Rightarrow> jsval \<Rightarrow> (js_error + unit) \<times> filesystem" where
  "writeJson e f p obj =
     (let text = json_text obj @ [CHR 0x0A]
      in write_file e f p (length text)
           (\<lambda>k. if k = length (json_text obj) then JsonDoc (json_reparse obj) else Bytes (take k text))
           (JsonDoc (json_reparse obj)))"

text \<open>\<open>createWriteStream\<close>, \<open>pipe\<close> and the wait for \<open>finish\<close> or \<open>error\<close>.\<close>

definition write_stream :: "env \<Rightarrow> filesystem \<Rightarrow> string \<Rightarrow> string \<Rightarrow> (js_error + unit) \<times> filesystem" where
  "write_stream e f p bytes =
     write_file e f p (length bytes) (\<lambda>k. Bytes (take k bytes)) (Bytes bytes)"

text \<open>\<open>mkdir -p\<close> along the chain of directories.\<close>

fun mkdirs :: "env \<Rightarrow> filesystem \<Rightarrow> string list \<Rightarrow> (js_error + unit) \<times> filesystem" where
  "mkdirs e f [] = (Inr (), f)"
| "mkdirs e f (d # ds) =
     (case f d of
        Some Dir \<Rightarrow> mkdirs e f ds
      | Some (File c) \<Rightarrow>
          (Inl (sys_error (if ds = [] then ''EEXIST: file already exists''
                           else ''ENOTDIR: not a directory'') ''mkdir'' d), f)
      | None \<Rightarrow>
          if write_denied e d then (Inl (sys_error ''EACCES: permission denied'' ''mkdir'' d), f)
          else mkdirs e (f(d \<mapsto> Dir)) ds)"

definition ensureDir :: "env \<Rightarrow> filesystem \<Rightarrow> string \<Rightarrow> (js_error + unit) \<times> filesystem" where
  "ensureDir e f p = mkdirs e f (dir_chain p)"

section \<open>The client\<close>

definition API_URL :: string where
  "API_URL = ''https://sarver-fullstack-4.onrender.com''"

definition CONFIG_PATH :: "env \<Rightarrow> string" where
  "CONFIG_PATH e = path_join [homedir e, ''.flamconfig.json'']"

definition saveApiKey :: "env \<Rightarrow> filesystem \<Rightarrow> jsval \<Rightarrow> (js_error + unit) \<times> filesystem" where
  "saveApiKey e f key = writeJson e f (CONFIG_PATH e) (Obj [(''apiKey'', key)])"

definition loadApiKey :: "env \<Rightarrow> filesystem \<Rightarrow> jsval" where
  "loadApiKey e f =
     (case readJson e f (CONFIG_PATH e) of
        Inl error \<Rightarrow> Null
      | Inr config \<Rightarrow>
          (case get_member config ''apiKey'' of
             Inl error \<Rightarrow> Null
           | Inr apiKey \<Rightarrow> apiKey))"


subsection \<open>Message texts\<close>

definition e_acute :: string where "e_acute = [CHR 0xC3, CHR 0xA9]"
definition e_grave :: string where "e_grave = [CHR 0xC3, CHR 0xA8]"
definition e_circ :: string where "e_circ = [CHR 0xC3, CHR 0xAA]"
definition check_mark :: string where "check_mark = [CHR 0xE2, CHR 0x9C, CHR 0x85]"

text \<open>\<open>chalk\<close> only colours the text on a terminal; the console holds the text itself.\<close>

definition msg_login_ok :: string where
  "msg_login_ok = check_mark @ '' Connexion r'' @ e_acute @ ''ussie ! Votre cl'' @ e_acute @
     '' API a '' @ e_acute @ ''t'' @ e_acute @ '' sauvegard'' @ e_acute @ ''e.''"

definition msg_not_connected :: string where
  "msg_not_connected = ''Vous n'' @ [CHR 0x27] @ e_circ @ ''tes pas connect'' @ e_acute @
     ''. Veuillez utiliser `flam login <email> <password>`.''"

definition msg_no_manifest :: string where
  "msg_no_manifest =
     ''Erreur : Impossible de trouver ou lire le fichier `package.json` dans le dossier actuel.''"

definition msg_no_results :: string where
  "msg_no_results = ''Aucun paquet trouv'' @ e_acute @ ''.''"

definition msg_not_found :: "string \<Rightarrow> string" where
  "msg_not_found packageName = ''Le paquet '' @ [CHR 0x22] @ packageName @ [CHR 0x22] @ '' n'' @
     [CHR 0x27] @ ''a pas '' @ e_acute @ ''t'' @ e_acute @ '' trouv'' @ e_acute @ ''.''"

definition msg_installed :: "string \<Rightarrow> string" where
  "msg_installed packageName = check_mark @ '' Paquet '' @ packageName @ '' install'' @ e_acute @
     '' avec succ'' @ e_grave @ ''s dans `flam_modules` !''"

definition msg_login_start :: string where
  "msg_login_start = ''Tentative de connexion...''"

definition msg_search_start :: "string \<Rightarrow> string" where
  "msg_search_start query =
     ''Recherche de paquets pour '' @ [CHR 0x22] @ query @ [CHR 0x22] @ ''...''"

definition msg_install_start :: "string \<Rightarrow> string" where
  "msg_install_start packageName = ''Recherche de '' @ packageName @ ''...''"

definition msg_downloading :: "string \<Rightarrow> jsval \<Rightarrow> string" where
  "msg_downloading packageName version =
     ''T'' @ e_acute @ ''l'' @ e_acute @ ''chargement de '' @ packageName @ ''@'' @
     to_string version @ ''...''"

definition msg_publishing :: "jsval \<Rightarrow> jsval \<Rightarrow> string" where
  "msg_publishing packageName version =
     ''Publication de '' @ to_string packageName @ ''@'' @ to_string version @ ''...''"

definition install_error_prefix :: string where
  "install_error_prefix = ''Erreur d'' @ [CHR 0x27] @ ''installation : ''"

text \<open>\<open>`${error.response?.data?.error || fallback}`\<close>\<close>

definition error_text :: "js_error \<Rightarrow> string \<Rightarrow> string" where
  "error_text err fallback = to_string (or_else (error_field err) (Str fallback))"

subsection \<open>login\<close>

definition login_try :: "env \<Rightarrow> world \<Rightarrow> string \<Rightarrow> string \<Rightarrow> (js_error + unit) \<times> world" where
  "login_try e w email password =
     (case axios_post e w (API_URL @ ''/auth/login'')
             (Json_body (Obj [(''email'', Str email), (''password'', Str password)])) [] of
        (Inl err, w1) \<Rightarrow> (Inl err, w1)
      | (Inr loginData, w1) \<Rightarrow>
          (case get_member loginData ''token'' of
             Inl err \<Rightarrow> (Inl err, w1)
           | Inr token \<Rightarrow>
               (case axios_post e w1 (API_URL @ ''/user/api-token'') (Json_body (Obj []))
                       [(''Authorization'', ''Bearer '' @ to_string token)] of
                  (Inl err, w2) \<Rightarrow> (Inl err, w2)
                | (Inr apiTokenData, w2) \<Rightarrow>
                    (case get_member apiTokenData ''api_token'' of
                       Inl err \<Rightarrow> (Inl err, w2)
                     | Inr apiKey \<Rightarrow>
                         (case saveApiKey e (files w2) apiKey of
                            (Inl err, f) \<Rightarrow> (Inl err, w2\<lparr>files := f\<rparr>)
                          | (Inr u, f) \<Rightarrow>
                              (Inr (), console_log (w2\<lparr>files := f\<rparr>) msg_login_ok))))))"

definition login :: "env \<Rightarrow> world \<Rightarrow> string \<Rightarrow> string \<Rightarrow> world" where
  "login e w email password =
     (case login_try e (console_log w msg_login_start) email password of
        (Inl err, w1) \<Rightarrow>
          console_error w1 (''Erreur de connexion : '' @ error_text err (message err))
      | (Inr u, w1) \<Rightarrow> w1)"

subsection \<open>publish\<close>

text \<open>The manifest block of \<open>src/flam.js\<close> (and of two of the three other variants).\<close>

definition read_manifest :: "env \<Rightarrow> filesystem \<Rightarrow> js_error + (jsval \<times> jsval \<times> jsval)" where
  "read_manifest e f =
     (case readJson e f (path_join [cwd e, ''package.json'']) of
        Inl err \<Rightarrow> Inl err
      | Inr pkgJson \<Rightarrow>
          (case get_member pkgJson ''name'' of
             Inl err \<Rightarrow> Inl err
           | Inr packageName \<Rightarrow>
               (case get_member pkgJson ''version'' of
                  Inl err \<Rightarrow> Inl err
                | Inr version \<Rightarrow>
                    (case get_member pkgJson ''description'' of
                       Inl err \<Rightarrow> Inl err
                     | Inr description \<Rightarrow> Inr (packageName, version, description)))))"

text \<open>
  The manifest block of the variant \<open>src/unnamed/part_002\<close>, line 73:
  \<open>packageName = pkgJson.name; version = pkgJson.name; description = pkgJson.description;\<close>
\<close>

definition read_manifest_part_002 :: "env \<Rightarrow> filesystem \<Rightarrow> js_error + (jsval \<times> jsval \<times> jsval)" where
  "read_manifest_part_002 e f =
     (case readJson e f (path_join [cwd e, ''package.json'']) of
        Inl err \<Rightarrow> Inl err
      | Inr pkgJson \<Rightarrow>
          (case get_member pkgJson ''name'' of
             Inl err \<Rightarrow> Inl err
           | Inr packageName \<Rightarrow>
               (case get_member pkgJson ''name'' of
                  Inl err \<Rightarrow> Inl err
                | Inr version \<Rightarrow>
                    (case get_member pkgJson ''description'' of
                       Inl err \<Rightarrow> Inl err
                     | Inr description \<Rightarrow> Inr (packageName, version, description)))))"

text \<open>
  \<open>form.append(name, value)\<close> of form-data: a string is taken as it is, a number as its
  decimal text, and a boolean is stored as it is. \<open>undefined\<close> and \<open>null\<close> are written
  as text by the versions that do so; the others read \<open>value.name\<close> and throw. An array
  is refused: the form emits an \<open>error\<close> event that nobody listens to, which throws.
  Any other object is taken for a stream, and wrapping it fails in \<open>source.on\<close> (an
  object with a \<open>name\<close>, \<open>path\<close> or \<open>readable\<close> property may fail before that, with
  another message, which is not modelled). Every one of these throws inside the \<open>try\<close>
  block of publish.
\<close>

definition append_nullish ::
  "env \<Rightarrow> (string \<times> form_value) list \<Rightarrow> string \<Rightarrow> jsval \<Rightarrow> js_error + (string \<times> form_value) list" where
  "append_nullish e form name v =
     (if nullish_as_text e then Inr (form @ [(name, Field (Str (to_string v)))])
      else Inl (JsError None
             (''Cannot read properties of '' @ to_string v @ '' (reading '' @ [CHR 0x27] @
              ''name'' @ [CHR 0x27] @ '')'')))"

definition form_append ::
  "env \<Rightarrow> (string \<times> form_value) list \<Rightarrow> string \<Rightarrow> jsval \<Rightarrow> js_error + (string \<times> form_value) list" where
  "form_append e form name v =
     (case v of
        Str s \<Rightarrow> Inr (form @ [(name, Field (Str s))])
      | Num n \<Rightarrow> Inr (form @ [(name, Field (Str (to_string (Num n))))])
      | Bool b \<Rightarrow> Inr (form @ [(name, Field (Bool b))])
      | Undefined \<Rightarrow> append_nullish e form name Undefined
      | Null \<Rightarrow> append_nullish e form name Null
      | Arr xs \<Rightarrow> Inl (JsError None ''Arrays are not supported.'')
      | Obj props \<Rightarrow> Inl (JsError None ''source.on is not a function''))"

text \<open>\<open>form.append(name, fse.createReadStream(filePath))\<close>: nothing is read yet.\<close>

definition form_append_stream ::
  "(string \<times> form_value) list \<Rightarrow> string \<Rightarrow> string \<Rightarrow> (string \<times> form_value) list" where
  "form_append_stream form name filePath = form @ [(name, File_stream filePath)]"

definition publish_form ::
  "env \<Rightarrow> string \<Rightarrow> jsval \<Rightarrow> jsval \<Rightarrow> jsval \<Rightarrow> js_error + (string \<times> form_value) list" where
  "publish_form e filePath packageName version description =
     (case form_append e [] ''packageName'' packageName of
        Inl err \<Rightarrow> Inl err
      | Inr form1 \<Rightarrow>
          (case form_append e form1 ''version'' version of
             Inl err \<Rightarrow> Inl err
           | Inr form2 \<Rightarrow>
               (case form_append e form2 ''description'' description of
                  Inl err \<Rightarrow> Inl err
                | Inr form3 \<Rightarrow> Inr (form_append_stream form3 ''package'' filePath))))"

text \<open>
  Sending a form: its parts are written to the request in order. A boolean is not
  something the request can write, and a file that cannot be opened for reading ends
  the upload; either way the call of \<open>axios.post\<close> is rejected with that error's
  message, there is no \<open>error.response\<close>, and the registry is not asked. Errors
  while an opened file is being read are not modelled.
\<close>

fun form_send_error :: "env \<Rightarrow> filesystem \<Rightarrow> (string \<times> form_value) list \<Rightarrow> string option" where
  "form_send_error e f [] = None"
| "form_send_error e f ((name, Field v) # parts) =
     (case v of
        Bool b \<Rightarrow> Some ''data should be a string, Buffer or Uint8Array''
      | _ \<Rightarrow> form_send_error e f parts)"
| "form_send_error e f ((name, File_stream p) # parts) =
     (case open_for_read e f p of
        Some err \<Rightarrow> Some (message err)
      | None \<Rightarrow> form_send_error e f parts)"

text \<open>What a request comes back with, the registry being asked only once the body of
  an upload has been read.\<close>

definition upload_reply :: "env \<Rightarrow> world \<Rightarrow> request \<Rightarrow> jsval reply" where
  "upload_reply e w req =
     (case payload req of
        Form_body form \<Rightarrow>
          (case form_send_error e (files w) form of
             Some msg \<Rightarrow> NoReply msg
           | None \<Rightarrow> server e (requests w) req)
      | _ \<Rightarrow> server e (requests w) req)"

definition axios_post_form ::
  "env \<Rightarrow> world \<Rightarrow> string \<Rightarrow> (string \<times> form_value) list \<Rightarrow> (string \<times> string) list \<Rightarrow>
     (js_error + jsval) \<times> world" where
  "axios_post_form e w u form hs =
     (axios_settle (upload_reply e w (post_request u (Form_body form) hs)),
      w\<lparr>requests := requests w @ [post_request u (Form_body form) hs]\<rparr>)"

definition publish_upload ::
  "env \<Rightarrow> world \<Rightarrow> jsval \<Rightarrow> string \<Rightarrow> jsval \<Rightarrow> jsval \<Rightarrow> jsval \<Rightarrow> world" where
  "publish_upload e w apiKey filePath packageName version description =
     (case publish_form e filePath packageName version description of
        Inl err \<Rightarrow>
          console_error w (''Erreur de publication : '' @ error_text err (message err))
      | Inr form \<Rightarrow>
          (case axios_post_form e w (API_URL @ ''/packages/publish'') form
                  [(''Authorization'', ''Bearer '' @ to_string apiKey)] of
             (Inl err, w1) \<Rightarrow>
               console_error w1 (''Erreur de publication : '' @ error_text err (message err))
           | (Inr responseData, w1) \<Rightarrow>
               (case get_member responseData ''message'' of
                  Inl err \<Rightarrow>
                    console_error w1 (''Erreur de publication : '' @ error_text err (message err))
                | Inr m \<Rightarrow> console_log w1 (check_mark @ '' '' @ to_string m))))"

definition publish_with ::
  "(env \<Rightarrow> filesystem \<Rightarrow> js_error + (jsval \<times> jsval \<times> jsval)) \<Rightarrow> env \<Rightarrow> world \<Rightarrow> string \<Rightarrow> world" where
  "publish_with manifest e w filePath =
     (let apiKey = loadApiKey e (files w)
      in if \<not> truthy apiKey then console_error w msg_not_connected
         else
           (case manifest e (files w) of
              Inl err \<Rightarrow> console_error w msg_no_manifest
            | Inr (packageName, version, description) \<Rightarrow>
                publish_upload e
                  (console_log w (msg_publishing packageName version))
                  apiKey filePath packageName version description))"

definition publish :: "env \<Rightarrow> world \<Rightarrow> string \<Rightarrow> world" where
  "publish = publish_with read_manifest"

definition publish_part_002 :: "env \<Rightarrow> world \<Rightarrow> string \<Rightarrow> world" where
  "publish_part_002 = publish_with read_manifest_part_002"

subsection \<open>search\<close>

definition render_result :: "jsval \<Rightarrow> js_error + string" where
  "render_result pkg =
     (case get_member pkg ''package_name'' of
        Inl err \<Rightarrow> Inl err
      | Inr package_name \<Rightarrow>
          (case get_member pkg ''version'' of
             Inl err \<Rightarrow> Inl err
           | Inr version \<Rightarrow>
               (case get_member pkg ''description'' of
                  Inl err \<Rightarrow> Inl err
                | Inr description \<Rightarrow>
                    (case get_member pkg ''author'' of
                       Inl err \<Rightarrow> Inl err
                     | Inr author \<Rightarrow>
                         Inr (to_string package_name @ ''@'' @ to_string version @ '' - '' @
                              to_string description @ '' ('' @ to_string author @ '')'')))))"

fun forEach_log :: "world \<Rightarrow> jsval list \<Rightarrow> (js_error + unit) \<times> world" where
  "forEach_log w [] = (Inr (), w)"
| "forEach_log w (pkg # pkgs) =
     (case render_result pkg of
        Inl err \<Rightarrow> (Inl err, w)
      | Inr line \<Rightarrow> forEach_log (console_log w line) pkgs)"

definition search_try :: "env \<Rightarrow> world \<Rightarrow> string \<Rightarrow> (js_error + unit) \<times> world" where
  "search_try e w query =
     (case axios_get e w (API_URL @ ''/packages/search?q='' @ query) of
        (Inl err, w1) \<Rightarrow> (Inl err, w1)
      | (Inr resData, w1) \<Rightarrow>
          (case get_member resData ''length'' of
             Inl err \<Rightarrow> (Inl err, w1)
           | Inr len \<Rightarrow>
               if len = Num 0 then (Inr (), console_log w1 msg_no_results)
               else
                 (case resData of
                    Arr pkgs \<Rightarrow> forEach_log w1 pkgs
                  | _ \<Rightarrow> (Inl (JsError None ''res.data.forEach is not a function''), w1))))"

definition search :: "env \<Rightarrow> world \<Rightarrow> string \<Rightarrow> world" where
  "search e w query =
     (case search_try e
             (console_log w (msg_search_start query))
             query of
        (Inl err, w1) \<Rightarrow>
          console_error w1 (''Erreur de recherche : '' @ error_text err (message err))
      | (Inr u, w1) \<Rightarrow> w1)"

subsection \<open>install\<close>

text \<open>\<open>const { version } = detailsRes.data\<close>\<close>

definition destructure :: "jsval \<Rightarrow> string \<Rightarrow> js_error + jsval" where
  "destructure v k =
     (if nullish v
      then Inl (JsError None
             (''Cannot destructure property '' @ [CHR 0x27] @ k @ [CHR 0x27] @
              '' of '' @ [CHR 0x27] @ ''detailsRes.data'' @ [CHR 0x27] @ '' as it is '' @
              to_string v @ ''.''))
      else Inr (get_prop v k))"

definition install_try :: "env \<Rightarrow> world \<Rightarrow> string \<Rightarrow> (js_error + unit) \<times> world" where
  "install_try e w packageName =
     (case axios_get e w (API_URL @ ''/packages/details/'' @ packageName) of
        (Inl err, w1) \<Rightarrow> (Inl err, w1)
      | (Inr detailsData, w1) \<Rightarrow>
          (case destructure detailsData ''version'' of
             Inl err \<Rightarrow> (Inl err, w1)
           | Inr version \<Rightarrow>
               (let w2 = console_log w1 (msg_downloading packageName version);
                    downloadUrl = API_URL @ ''/packages/download/'' @ packageName @ ''/'' @
                            to_string version
                in case axios_get_stream e w2 downloadUrl of
                     (Inl err, w3) \<Rightarrow> (Inl err, w3)
                   | (Inr bytes, w3) \<Rightarrow>
                       (let installDir = path_join [cwd e, ''flam_modules'']
                        in case ensureDir e (files w3) installDir of
                             (Inl err, f) \<Rightarrow> (Inl err, w3\<lparr>files := f\<rparr>)
                           | (Inr u, f) \<Rightarrow>
                               (let filePath = path_join [installDir,
                                      packageName @ ''-'' @ to_string version @ ''.zip'']
                                in case write_stream e f filePath bytes of
                                     (Inl err, f') \<Rightarrow> (Inl err, w3\<lparr>files := f'\<rparr>)
                                   | (Inr u', f') \<Rightarrow>
                                       (Inr (), console_log (w3\<lparr>files := f'\<rparr>)
                                                  (msg_installed packageName)))))))"

definition install :: "env \<Rightarrow> world \<Rightarrow> string \<Rightarrow> world" where
  "install e w packageName =
     (case install_try e (console_log w (msg_install_start packageName)) packageName of
        (Inl err, w1) \<Rightarrow>
          console_error w1 (install_error_prefix @ error_text err (msg_not_found packageName))
      | (Inr u, w1) \<Rightarrow> w1)"


section \<open>Vocabulary of the properties\<close>

text \<open>A request fails when nothing comes back or the status is outside 200..299.\<close>

definition failed :: "'b reply \<Rightarrow> bool" where
  "failed r = (case r of NoReply msg \<Rightarrow> True | Reply status b \<Rightarrow> \<not> http_ok status)"

text \<open>The requests of the four flows, as the calls of \<open>axios\<close> build them.\<close>

definition auth_request :: "string \<Rightarrow> string \<Rightarrow> request" where
  "auth_request email password =
     post_request (API_URL @ ''/auth/login'')
       (Json_body (Obj [(''email'', Str email), (''password'', Str password)])) []"

definition api_token_request :: "jsval \<Rightarrow> request" where
  "api_token_request token =
     post_request (API_URL @ ''/user/api-token'') (Json_body (Obj []))
       [(''Authorization'', ''Bearer '' @ to_string token)]"

definition publish_request :: "jsval \<Rightarrow> (string \<times> form_value) list \<Rightarrow> request" where
  "publish_request apiKey form =
     post_request (API_URL @ ''/packages/publish'') (Form_body form)
       [(''Authorization'', ''Bearer '' @ to_string apiKey)]"

definition search_request :: "string \<Rightarrow> request" where
  "search_request query = get_request (API_URL @ ''/packages/search?q='' @ query)"

definition details_request :: "string \<Rightarrow> request" where
  "details_request packageName = get_request (API_URL @ ''/packages/details/'' @ packageName)"

definition download_request :: "string \<Rightarrow> jsval \<Rightarrow> request" where
  "download_request packageName version =
     get_stream_request
       (API_URL @ ''/packages/download/'' @ packageName @ ''/'' @ to_string version)"

text \<open>Where install writes: the installation directory and the path of the archive.\<close>

definition install_dir :: "env \<Rightarrow> string" where
  "install_dir e = path_join [cwd e, ''flam_modules'']"

definition archive_path :: "env \<Rightarrow> string \<Rightarrow> jsval \<Rightarrow> string" where
  "archive_path e packageName version =
     path_join [install_dir e, packageName @ ''-'' @ to_string version @ ''.zip'']"





text \<open>
  URL encoding as the specification names it: \<open>encodeURIComponent\<close> on the bytes of the
  string, every byte outside the unreserved set written as \<open>%XX\<close>.
\<close>

definition uri_unreserved :: "char \<Rightarrow> bool" where
  "uri_unreserved c =
     (c \<in> set (''ABCDEFGHIJKLMNOPQRSTUVWXYZabcdefghijklmnopqrstuvwxyz0123456789-_.!~*()'' @
               [CHR 0x27]))"

definition upper_hex_digit :: "nat \<Rightarrow> char" where
  "upper_hex_digit d = (if d < 16 then ''0123456789ABCDEF'' ! d else CHR ''?'')"

definition percent_encode_char :: "char \<Rightarrow> string" where
  "percent_encode_char c =
     (if uri_unreserved c then [c]
      else [CHR ''%'', upper_hex_digit (of_char c div 16), upper_hex_digit (of_char c mod 16)])"

definition spec_url_encode :: "string \<Rightarrow> string" where
  "spec_url_encode s = concat (map percent_encode_char s)"


section \<open>Example environments\<close>

text \<open>A registry that knows one user and one package, one that is unreachable, and one
  that authenticates but refuses to issue an API key.\<close>

definition demo_registry :: "request list \<Rightarrow> request \<Rightarrow> jsval reply" where
  "demo_registry history r =
     (if url r = API_URL @ ''/auth/login'' then Reply 200 (Obj [(''token'', Str ''jwt'')])
      else if url r = API_URL @ ''/user/api-token'' then Reply 200 (Obj [(''api_token'', Str ''key-1'')])
      else if url r = API_URL @ ''/packages/publish'' then Reply 201 (Obj [(''message'', Str ''published'')])
      else if url r = API_URL @ ''/packages/details/foo'' then Reply 200 (Obj [(''version'', Str ''1.2.0'')])
      else if url r = API_URL @ ''/packages/search?q=dragon''
        then Reply 200 (Arr [Obj [(''package_name'', Str ''dragon''), (''version'', Str ''2.0.0''),
                                  (''description'', Str ''fire''), (''author'', Str ''ann'')],
                             Obj [(''package_name'', Str ''dragonfly''), (''version'', Str ''0.1.0''),
                                  (''description'', Str ''wings''), (''author'', Str ''bob'')]])
      else if url r = API_URL @ ''/packages/search?q=unicorn'' then Reply 200 (Arr [])
      else Reply 404 (Obj [(''error'', Str ''Not found'')]))"

definition offline_registry :: "request list \<Rightarrow> request \<Rightarrow> jsval reply" where
  "offline_registry history r = NoReply ''connect ECONNREFUSED 216.24.57.1:443''"

definition token_refusing_registry :: "request list \<Rightarrow> request \<Rightarrow> jsval reply" where
  "token_refusing_registry history r =
     (if url r = API_URL @ ''/auth/login'' then Reply 200 (Obj [(''token'', Str ''jwt'')])
      else Reply 401 (Obj [(''error'', Str ''Unauthorized'')]))"

definition demo_env :: "(request list \<Rightarrow> request \<Rightarrow> jsval reply) \<Rightarrow> env" where
  "demo_env registry =
     \<lparr>homedir = ''/home/u'', cwd = ''/w'', server = registry,
      server_stream = (\<lambda>history r. Reply 200 ''PK-archive''),
      read_denied = (\<lambda>p. False), write_denied = (\<lambda>p. False), write_fault = (\<lambda>p. None),
      nullish_as_text = True\<rparr>"

definition demo_files :: filesystem where
  "demo_files = [''/home/u'' \<mapsto> Dir, ''/w'' \<mapsto> Dir]"

definition demo_world :: world where
  "demo_world = \<lparr>files = demo_files, requests = [], console = []\<rparr>"

text \<open>A registry that has version 1.0.0 of whatever is asked for, one that gives every
  package a version with \<open>..\<close> segments in it, and a disk that fails after three bytes
  of any write.\<close>

definition obliging_registry :: "request list \<Rightarrow> request \<Rightarrow> jsval reply" where
  "obliging_registry history r = Reply 200 (Obj [(''version'', Str ''1.0.0'')])"

definition hostile_registry :: "request list \<Rightarrow> request \<Rightarrow> jsval reply" where
  "hostile_registry history r = Reply 200 (Obj [(''version'', Str ''/../../x'')])"

definition full_disk_env :: "(request list \<Rightarrow> request \<Rightarrow> jsval reply) \<Rightarrow> env" where
  "full_disk_env registry =
     (demo_env registry)\<lparr>write_fault := \<lambda>p. Some (3, ''ENOSPC: no space left on device, write'')\<rparr>"


text \<open>A working directory with a manifest, for a user who has logged in.\<close>

definition publisher_files :: filesystem where
  "publisher_files =
     demo_files
       (''/home/u/.flamconfig.json'' \<mapsto> File (JsonDoc (Obj [(''apiKey'', Str ''key-1'')])),
        ''/w/package.json'' \<mapsto>
          File (JsonDoc (Obj [(''name'', Str ''foo''), (''version'', Str ''1.0.0''),
                              (''description'', Str ''a package'')])))"

definition publisher_world :: world where
  "publisher_world = \<lparr>files = publisher_files, requests = [], console = []\<rparr>"





section \<open>Basic facts\<close>

lemma console_log_fields:
  "files (console_log w s) = files w"
  "requests (console_log w s) = requests w"
  "console (console_log w s) = console w @ [(Stdout, s)]"
  by (simp_all add: console_log_def)

lemma console_error_fields:
  "files (console_error w s) = files w"
  "requests (console_error w s) = requests w"
  "console (console_error w s) = console w @ [(Stderr, s)]"
  by (simp_all add: console_error_def)

lemma axios_settle_Inr:
  "axios_settle r = Inr d \<Longrightarrow> \<exists>status. r = Reply status d \<and> http_ok status"
  by (cases r) (auto simp: axios_settle_def split: if_splits)

lemma axios_settle_Inl: "axios_settle r = Inl err \<Longrightarrow> failed r"
  by (cases r) (auto simp: axios_settle_def failed_def split: if_splits)

lemma axios_settle_failed: "failed r \<Longrightarrow> \<exists>err. axios_settle r = Inl err"
  by (cases r) (auto simp: failed_def axios_settle_def)

lemma demo_config_path: "CONFIG_PATH (demo_env registry) = ''/home/u/.flamconfig.json''"
  by (simp add: CONFIG_PATH_def demo_env_def path_join_def path_normalize_def
      normalizeString_def normalize_step_def)

section \<open>Paths\<close>

lemma split_on_nonempty: "split_on c xs \<noteq> []"
  by (induction xs) (auto split: list.splits)

lemma split_on_no_sep: "c \<notin> set s \<Longrightarrow> split_on c s = [s]"
  by (induction s) auto

lemma split_on_append_sep: "c \<notin> set s \<Longrightarrow> split_on c (s @ c # rest) = s # split_on c rest"
  by (induction s) (auto split: list.splits)

lemma split_on_segments: "s \<in> set (split_on c xs) \<Longrightarrow> c \<notin> set s"
proof (induction xs arbitrary: s)
  case Nil
  then show ?case by simp
next
  case (Cons x xs)
  then show ?case
    by (cases "split_on c xs") (auto split: if_splits)
qed

lemma split_on_snoc:
  "c \<notin> set s \<Longrightarrow> split_on c (xs @ c # s) = split_on c xs @ [s]"
proof (induction xs)
  case Nil
  then show ?case by (simp add: split_on_no_sep)
next
  case (Cons x xs)
  then show ?case
    by (cases "split_on c xs") (auto simp: split_on_nonempty)
qed

lemma join_with_snoc: "xs \<noteq> [] \<Longrightarrow> join_with sep (xs @ [x]) = join_with sep xs @ sep @ x"
  by (induction sep xs rule: join_with.induct) auto

lemma split_on_join_with:
  "xs \<noteq> [] \<Longrightarrow> (\<And>s. s \<in> set xs \<Longrightarrow> c \<notin> set s) \<Longrightarrow> split_on c (join_with [c] xs) = xs"
proof (induction "[c]" xs rule: join_with.induct)
  case 1
  then show ?case by simp
next
  case (2 x)
  then show ?case by (simp add: split_on_no_sep)
next
  case (3 x y ys)
  then show ?case by (simp add: split_on_append_sep)
qed

lemma hd_join_with:
  "xs \<noteq> [] \<Longrightarrow> hd xs \<noteq> [] \<Longrightarrow> hd (join_with sep xs) = hd (hd xs)"
  by (induction sep xs rule: join_with.induct) auto

lemma join_with_eq_Nil: "join_with sep (xs @ [x]) = [] \<Longrightarrow> x = []"
  by (induction sep xs rule: join_with.induct) auto

lemma settled_single_plain: "seg \<noteq> [] \<Longrightarrow> seg \<noteq> ''.'' \<Longrightarrow> seg \<noteq> ''..'' \<Longrightarrow> settled up [seg]"
  using settled_plain [OF settled_Nil, of seg up] by simp

lemma settled_single_up: "up \<Longrightarrow> settled up [''..'']"
  using settled_up [OF settled_Nil, of up] by simp

lemma settled_butlast: "settled up res \<Longrightarrow> settled up (butlast res)"
  by (induction rule: settled.induct) (auto intro: settled.intros)

lemma settled_step: "settled up res \<Longrightarrow> settled up (normalize_step up res seg)"
  by (auto simp: normalize_step_def settled_butlast settled_single_plain settled_single_up
      intro: settled.intros)

lemma settled_foldl: "settled up res \<Longrightarrow> settled up (foldl (normalize_step up) res segs)"
  by (induction segs arbitrary: res) (auto simp: settled_step)

lemma settled_normalizeString: "settled up (normalizeString p up)"
  by (simp add: normalizeString_def settled_foldl settled_Nil)

lemma settled_fixed: "settled up res \<Longrightarrow> foldl (normalize_step up) [] res = res"
  by (induction rule: settled.induct) (auto simp: normalize_step_def)

lemma settled_segments: "settled up res \<Longrightarrow> s \<in> set res \<Longrightarrow> s \<noteq> []"
  by (induction rule: settled.induct) auto

lemma step_subset: "set (normalize_step up res seg) \<subseteq> insert seg (set res)"
  by (auto simp: normalize_step_def dest: in_set_butlastD)

lemma foldl_step_subset: "set (foldl (normalize_step up) res segs) \<subseteq> set res \<union> set segs"
proof (induction segs arbitrary: res)
  case Nil
  then show ?case by simp
next
  case (Cons seg segs)
  from Cons.IH [of "normalize_step up res seg"] step_subset [of up res seg]
  show ?case by auto
qed

lemma foldl_step_no_sep:
  assumes "\<And>s. s \<in> set segs \<Longrightarrow> CHR ''/'' \<notin> set s" and "s \<in> set (foldl (normalize_step up) [] segs)"
  shows "CHR ''/'' \<notin> set s"
  using assms foldl_step_subset [of up "[]" segs] by auto

lemma path_normalize_no_trailing:
  assumes "p \<noteq> []" and "last p \<noteq> CHR ''/''"
    and "normalizeString p (hd p \<noteq> CHR ''/'') = segs" and "join_with ''/'' segs \<noteq> []"
  shows "path_normalize p = (if hd p = CHR ''/'' then ''/'' else []) @ join_with ''/'' segs"
  using assms by (simp add: path_normalize_def Let_def)

lemma last_not_sep: "s \<noteq> [] \<Longrightarrow> c \<notin> set s \<Longrightarrow> last s \<noteq> c"
  using last_in_set [of s] by auto

lemma hd_not_sep: "s \<noteq> [] \<Longrightarrow> c \<notin> set s \<Longrightarrow> hd s \<noteq> c"
  using hd_in_set [of s] by auto

lemma normalize_step_plain:
  "seg \<noteq> [] \<Longrightarrow> seg \<noteq> ''.'' \<Longrightarrow> seg \<noteq> ''..'' \<Longrightarrow> normalize_step up res seg = res @ [seg]"
  by (simp add: normalize_step_def)

lemma normalize_step_empty: "normalize_step up res [] = res"
  by (simp add: normalize_step_def)

text \<open>
  Joining a plain segment to a directory that \<open>path.join\<close> itself produced appends the
  segment: the file lies directly in that directory and carries the segment as its name.
\<close>

lemma path_join_child:
  assumes d: "plain_segment d" and name: "plain_segment name"
  shows "path_join [path_join [c, d], name] = path_join [c, d] @ ''/'' @ name"
proof -
  define absolute where "absolute = (c \<noteq> [] \<and> hd c = CHR ''/'')"
  define pre where "pre = (if c = [] then [] else split_on CHR ''/'' c)"
  define joined where "joined = (if c = [] then d else c @ ''/'' @ d)"
  define S0 where "S0 = foldl (normalize_step (\<not> absolute)) [] pre"
  define D where "D = (if absolute then ''/'' else []) @ join_with ''/'' (S0 @ [d])"
  from d have d_ne: "d \<noteq> []" and d_dot: "d \<noteq> ''.''" and d_up: "d \<noteq> ''..''"
    and d_sep: "CHR ''/'' \<notin> set d"
    by (simp_all add: plain_segment_def)
  from name have n_ne: "name \<noteq> []" and n_dot: "name \<noteq> ''.''" and n_up: "name \<noteq> ''..''"
    and n_sep: "CHR ''/'' \<notin> set name"
    by (simp_all add: plain_segment_def)
  have settled_S0: "settled (\<not> absolute) S0"
    unfolding S0_def by (rule settled_foldl [OF settled_Nil])
  have settled_S0d: "settled (\<not> absolute) (S0 @ [d])"
    using settled_S0 d_ne d_dot d_up by (rule settled_plain)
  have S0_sep: "CHR ''/'' \<notin> set s" if "s \<in> set (S0 @ [d])" for s
  proof (cases "s = d")
    case True
    then show ?thesis using d_sep by simp
  next
    case False
    with that have "s \<in> set S0" by simp
    then show ?thesis
      unfolding S0_def
      by (rule foldl_step_no_sep [rotated]) (auto simp: pre_def dest: split_on_segments split: if_splits)
  qed
  have join_ne: "join_with ''/'' (S0 @ [d]) \<noteq> []"
    using join_with_eq_Nil [of "''/''" S0 d] d_ne by blast
  have first_D: "path_join [c, d] = D"
  proof -
    have pj: "path_join [c, d] = path_normalize joined"
      using d_ne by (simp add: path_join_def joined_def)
    have j_ne: "joined \<noteq> []" using d_ne by (simp add: joined_def)
    have j_last: "last joined \<noteq> CHR ''/''"
      using last_not_sep [OF d_ne d_sep] d_ne by (simp add: joined_def)
    have j_hd: "(hd joined = CHR ''/'') = absolute"
      using hd_not_sep [OF d_ne d_sep] d_ne by (auto simp: joined_def absolute_def)
    have j_split: "split_on CHR ''/'' joined = pre @ [d]"
      using d_sep by (simp add: joined_def pre_def split_on_no_sep split_on_snoc)
    have "normalizeString joined (hd joined \<noteq> CHR ''/'') = S0 @ [d]"
      using d_ne d_dot d_up
      by (simp add: normalizeString_def j_split j_hd S0_def normalize_step_plain)
    from path_normalize_no_trailing [OF j_ne j_last this join_ne]
    show ?thesis by (simp add: pj D_def j_hd)
  qed
  have "path_join [D, name] = D @ ''/'' @ name"
  proof -
    have D_ne: "D \<noteq> []" using join_ne by (simp add: D_def)
    have pj: "path_join [D, name] = path_normalize (D @ CHR ''/'' # name)"
      using D_ne n_ne by (simp add: path_join_def)
    have p_ne: "D @ CHR ''/'' # name \<noteq> []" by simp
    have p_last: "last (D @ CHR ''/'' # name) \<noteq> CHR ''/''"
      using last_not_sep [OF n_ne n_sep] n_ne by simp
    have hd_S0d: "hd (S0 @ [d]) \<in> set (S0 @ [d])" by (rule hd_in_set) simp
    have hd_seg_ne: "hd (S0 @ [d]) \<noteq> []"
      using settled_segments [OF settled_S0d hd_S0d] .
    have "hd (join_with ''/'' (S0 @ [d])) = hd (hd (S0 @ [d]))"
      by (rule hd_join_with) (simp_all add: hd_seg_ne)
    moreover have "hd (hd (S0 @ [d])) \<noteq> CHR ''/''"
      using hd_not_sep [OF hd_seg_ne S0_sep [OF hd_S0d]] .
    ultimately have p_hd: "(hd (D @ CHR ''/'' # name) = CHR ''/'') = absolute"
      using join_ne by (auto simp: D_def)
    define X where "X = (if absolute then [[]] else []) @ (S0 @ [d])"
    have split_D: "split_on CHR ''/'' D = X"
      using split_on_join_with [of "S0 @ [d]" "CHR ''/''"] S0_sep
      by (auto simp: D_def X_def)
    have p_split: "split_on CHR ''/'' (D @ CHR ''/'' # name) = X @ [name]"
      using split_on_snoc [OF n_sep, of D] by (simp add: split_D)
    have fixed: "foldl (normalize_step (\<not> absolute)) [] X = S0 @ [d]"
      using settled_fixed [OF settled_S0d] by (auto simp: X_def normalize_step_empty)
    have "normalizeString (D @ CHR ''/'' # name) (\<not> absolute) =
            normalize_step (\<not> absolute) (foldl (normalize_step (\<not> absolute)) [] X) name"
      by (simp add: normalizeString_def p_split)
    also have "\<dots> = (S0 @ [d]) @ [name]"
      unfolding fixed using n_ne n_dot n_up by (rule normalize_step_plain)
    finally have "normalizeString (D @ CHR ''/'' # name) (hd (D @ CHR ''/'' # name) \<noteq> CHR ''/'') = (S0 @ [d]) @ [name]"
      by (simp only: p_hd)
    moreover have "join_with ''/'' ((S0 @ [d]) @ [name]) = join_with ''/'' (S0 @ [d]) @ ''/'' @ name"
      by (rule join_with_snoc) simp
    ultimately have "path_normalize (D @ CHR ''/'' # name) =
        (if hd (D @ CHR ''/'' # name) = CHR ''/'' then ''/'' else []) @ join_with ''/'' (S0 @ [d]) @ ''/'' @ name"
      using path_normalize_no_trailing [OF p_ne p_last, of "(S0 @ [d]) @ [name]"] by simp
    then have "path_normalize (D @ CHR ''/'' # name) =
        (if absolute then ''/'' else []) @ join_with ''/'' (S0 @ [d]) @ ''/'' @ name"
      unfolding p_hd .
    then show ?thesis
      unfolding pj by (simp add: D_def)
  qed
  then show ?thesis by (simp add: first_D)
qed

lemma plain_segment_zip:
  assumes "CHR ''/'' \<notin> set packageName" and "CHR ''/'' \<notin> set v"
  shows "plain_segment (packageName @ ''-'' @ v @ ''.zip'')"
  using assms by (auto simp: plain_segment_def append_eq_Cons_conv)

lemma plain_segment_flam_modules: "plain_segment ''flam_modules''"
  by (simp add: plain_segment_def)

section \<open>The credential store\<close>



lemma demo_save:
  "saveApiKey (demo_env registry) demo_files (Str ''key-1'') =
     (Inr (), demo_files(''/home/u/.flamconfig.json'' \<mapsto>
                File (JsonDoc (Obj [(''apiKey'', Str ''key-1'')]))))"
  apply (simp add: saveApiKey_def demo_config_path writeJson_def write_file_def open_for_write_def
      parent_dir_def is_dir_def demo_files_def Let_def)
  apply (simp add: demo_env_def)
  done



section \<open>login\<close>

lemma login_try_files:
  assumes "login_try e w email password = (res, w')"
  shows "files w' = files w \<or>
    (\<exists>status1 d1 status2 d2.
       server e (requests w) (auth_request email password) = Reply status1 d1 \<and> http_ok status1 \<and>
       server e (requests w @ [auth_request email password]) (api_token_request (get_prop d1 ''token''))
         = Reply status2 d2 \<and> http_ok status2)"
  using assms
  unfolding login_try_def axios_post_def axios_request_def auth_request_def api_token_request_def
  by (auto split: sum.splits prod.splits if_splits dest!: axios_settle_Inr simp: get_member_def)

lemma login_success:
  assumes "server e (requests w) (auth_request email password) = Reply s1 d1" and "http_ok s1"
    and "\<not> nullish d1"
    and "server e (requests w @ [auth_request email password])
               (api_token_request (get_prop d1 ''token'')) = Reply s2 d2" and "http_ok s2"
    and "\<not> nullish d2"
    and "saveApiKey e (files w) (get_prop d2 ''api_token'') = (Inr (), f')"
  shows "login e w email password =
     w\<lparr>files := f',
       requests := requests w @ [auth_request email password, api_token_request (get_prop d1 ''token'')],
       console := console w @ [(Stdout, msg_login_start), (Stdout, msg_login_ok)]\<rparr>"
  using assms unfolding auth_request_def api_token_request_def
  by (simp add: login_def login_try_def axios_post_def axios_request_def axios_settle_def
      get_member_def console_log_def)

lemma demo_auth_reply:
  "server (demo_env demo_registry) (requests demo_world) (auth_request ''ann@example.org'' ''secret'')
     = Reply 200 (Obj [(''token'', Str ''jwt'')])"
  by (simp add: demo_env_def demo_registry_def auth_request_def post_request_def)

lemma demo_token_reply:
  "server (demo_env demo_registry) (requests demo_world @ [auth_request ''ann@example.org'' ''secret''])
     (api_token_request (get_prop (Obj [(''token'', Str ''jwt'')]) ''token''))
     = Reply 200 (Obj [(''api_token'', Str ''key-1'')])"
  by (simp add: demo_env_def demo_registry_def api_token_request_def post_request_def API_URL_def)

lemma demo_login_saves:
  "files (login (demo_env demo_registry) demo_world ''ann@example.org'' ''secret'')
     ''/home/u/.flamconfig.json'' = Some (File (JsonDoc (Obj [(''apiKey'', Str ''key-1'')])))"
proof -
  have save: "saveApiKey (demo_env demo_registry) (files demo_world)
        (get_prop (Obj [(''api_token'', Str ''key-1'')]) ''api_token'') =
     (Inr (), demo_files(''/home/u/.flamconfig.json'' \<mapsto>
                File (JsonDoc (Obj [(''apiKey'', Str ''key-1'')]))))"
    by (simp add: demo_world_def demo_save)
  show ?thesis
    by (simp add: login_success [OF demo_auth_reply _ _ demo_token_reply _ _ save] http_ok_def nullish_def)
qed

text \<open>
  C2. When the authentication request fails, or it succeeds and the API-token request
  fails, login leaves the file system, and with it the credential store, as it was. If
  login changed any file, both requests had succeeded.
\<close>

theorem login_failure_keeps_store:
  "(failed (server e (requests w) (auth_request email password))
      \<longrightarrow> files (login e w email password) = files w) \<and>
   (server e (requests w) (auth_request email password) = Reply status1 d1 \<and> http_ok status1 \<and>
    failed (server e (requests w @ [auth_request email password])
              (api_token_request (get_prop d1 ''token'')))
      \<longrightarrow> files (login e w email password) = files w) \<and>
   (files (login e w email password) \<noteq> files w
      \<longrightarrow> (\<exists>s1 t1 s2 t2.
             server e (requests w) (auth_request email password) = Reply s1 t1 \<and> http_ok s1 \<and>
             server e (requests w @ [auth_request email password])
               (api_token_request (get_prop t1 ''token'')) = Reply s2 t2 \<and> http_ok s2))"
proof -
  obtain res w' where tried: "login_try e (console_log w msg_login_start) email password = (res, w')"
    by (cases "login_try e (console_log w msg_login_start) email password")
  have files_login: "files (login e w email password) = files w'"
    using tried by (cases res) (simp_all add: login_def console_error_fields)
  from login_try_files [OF tried]
  have alt: "files w' = files w \<or>
    (\<exists>s1 t1 s2 t2.
       server e (requests w) (auth_request email password) = Reply s1 t1 \<and> http_ok s1 \<and>
       server e (requests w @ [auth_request email password])
         (api_token_request (get_prop t1 ''token'')) = Reply s2 t2 \<and> http_ok s2)"
    by (simp add: console_log_fields)
  show ?thesis
  proof (intro conjI impI)
    assume "failed (server e (requests w) (auth_request email password))"
    with alt show "files (login e w email password) = files w"
      by (auto simp: files_login failed_def)
  next
    assume "server e (requests w) (auth_request email password) = Reply status1 d1 \<and> http_ok status1 \<and>
      failed (server e (requests w @ [auth_request email password])
                (api_token_request (get_prop d1 ''token'')))"
    with alt show "files (login e w email password) = files w"
      by (auto simp: files_login failed_def)
  next
    assume "files (login e w email password) \<noteq> files w"
    with alt show "\<exists>s1 t1 s2 t2.
       server e (requests w) (auth_request email password) = Reply s1 t1 \<and> http_ok s1 \<and>
       server e (requests w @ [auth_request email password])
         (api_token_request (get_prop t1 ''token'')) = Reply s2 t2 \<and> http_ok s2"
      by (simp add: files_login)
  qed
qed

theorem login_failure_keeps_store_witness:
  "failed (server (demo_env offline_registry) (requests demo_world) (auth_request ''ann@example.org'' ''secret'')) \<and>
   files (login (demo_env offline_registry) demo_world ''ann@example.org'' ''secret'') = files demo_world \<and>
   server (demo_env token_refusing_registry) (requests demo_world) (auth_request ''ann@example.org'' ''secret'')
      = Reply 200 (Obj [(''token'', Str ''jwt'')]) \<and> http_ok 200 \<and>
   failed (server (demo_env token_refusing_registry)
             (requests demo_world @ [auth_request ''ann@example.org'' ''secret''])
             (api_token_request (get_prop (Obj [(''token'', Str ''jwt'')]) ''token''))) \<and>
   files (login (demo_env token_refusing_registry) demo_world ''ann@example.org'' ''secret'') = files demo_world \<and>
   files (login (demo_env demo_registry) demo_world ''ann@example.org'' ''secret'') \<noteq> files demo_world \<and>
   (\<exists>s1 t1 s2 t2.
      server (demo_env demo_registry) (requests demo_world) (auth_request ''ann@example.org'' ''secret'')
        = Reply s1 t1 \<and> http_ok s1 \<and>
      server (demo_env demo_registry) (requests demo_world @ [auth_request ''ann@example.org'' ''secret''])
        (api_token_request (get_prop t1 ''token'')) = Reply s2 t2 \<and> http_ok s2)"
proof -
  have h1: "failed (server (demo_env offline_registry) (requests demo_world)
              (auth_request ''ann@example.org'' ''secret''))"
    by (simp add: failed_def demo_env_def offline_registry_def)
  have h2a: "server (demo_env token_refusing_registry) (requests demo_world)
              (auth_request ''ann@example.org'' ''secret'') = Reply 200 (Obj [(''token'', Str ''jwt'')])"
    by (simp add: demo_env_def token_refusing_registry_def auth_request_def post_request_def)
  have h2b: "http_ok 200"
    by (simp add: http_ok_def)
  have h2c: "failed (server (demo_env token_refusing_registry)
             (requests demo_world @ [auth_request ''ann@example.org'' ''secret''])
             (api_token_request (get_prop (Obj [(''token'', Str ''jwt'')]) ''token'')))"
    by (simp add: failed_def http_ok_def demo_env_def token_refusing_registry_def
        api_token_request_def post_request_def API_URL_def)
  have h3: "files (login (demo_env demo_registry) demo_world ''ann@example.org'' ''secret'') \<noteq> files demo_world"
  proof
    assume "files (login (demo_env demo_registry) demo_world ''ann@example.org'' ''secret'') = files demo_world"
    then have "files (login (demo_env demo_registry) demo_world ''ann@example.org'' ''secret'')
                 ''/home/u/.flamconfig.json'' = files demo_world ''/home/u/.flamconfig.json''"
      by simp
    then show False by (simp add: demo_login_saves) (simp add: demo_world_def demo_files_def)
  qed
  note c1 = login_failure_keeps_store [of "demo_env offline_registry" demo_world
              "''ann@example.org''" "''secret''", THEN conjunct1, rule_format, OF h1]
  note c2 = login_failure_keeps_store [of "demo_env token_refusing_registry" demo_world
              "''ann@example.org''" "''secret''" 200 "Obj [(''token'', Str ''jwt'')]",
              THEN conjunct2, THEN conjunct1, rule_format, OF conjI [OF h2a conjI [OF h2b h2c]]]
  note c3 = login_failure_keeps_store [of "demo_env demo_registry" demo_world
              "''ann@example.org''" "''secret''", THEN conjunct2, THEN conjunct2, rule_format, OF h3]
  show ?thesis
    by (intro conjI) (rule h1 c1 h2a h2b h2c c2 h3 c3)+
qed

section \<open>publish\<close>

lemma publish_with_not_connected:
  assumes "\<not> truthy (loadApiKey e (files w))"
  shows "publish_with manifest e w filePath = console_error w msg_not_connected"
  using assms by (simp add: publish_with_def)

text \<open>A form of three strings and the archive is built as it is written.\<close>

lemma publish_form_strings:
  "publish_form e filePath (Str n) (Str v) (Str d) =
     Inr [(''packageName'', Field (Str n)), (''version'', Field (Str v)),
          (''description'', Field (Str d)), (''package'', File_stream filePath)]"
  by (simp add: publish_form_def form_append_def form_append_stream_def)

text \<open>When the form cannot be built, publish prints the error and calls nobody.\<close>

lemma publish_upload_no_form:
  assumes "publish_form e filePath packageName version description = Inl err"
  shows "publish_upload e w apiKey filePath packageName version description =
     console_error w (''Erreur de publication : '' @ error_text err (message err))"
  using assms by (simp add: publish_upload_def)

lemma publish_array_name:
  assumes "truthy (loadApiKey e (files w))"
    and "read_manifest e (files w) = Inr (Arr xs, version, description)"
  shows "publish e w filePath =
     console_error (console_log w (msg_publishing (Arr xs) version))
       ''Erreur de publication : Arrays are not supported.''"
  using assms
  by (simp add: publish_def publish_with_def publish_upload_def publish_form_def form_append_def
      error_text_def or_else_def)

lemma publish_upload_requests:
  assumes "publish_form e filePath packageName version description = Inr form"
  shows "requests (publish_upload e w apiKey filePath packageName version description) =
     requests w @ [publish_request apiKey form]"
  using assms
  by (simp add: publish_upload_def axios_post_form_def publish_request_def
      console_error_fields console_log_fields split: sum.splits)

lemma publish_with_requests:
  assumes "truthy (loadApiKey e (files w))"
    and "manifest e (files w) = Inr (packageName, version, description)"
    and "publish_form e filePath packageName version description = Inr form"
  shows "requests (publish_with manifest e w filePath) =
     requests w @ [publish_request (loadApiKey e (files w)) form]"
  using assms by (simp add: publish_with_def publish_upload_requests console_log_fields)

lemma read_manifest_ok:
  assumes "readJson e f (path_join [cwd e, ''package.json'']) = Inr pkgJson" and "\<not> nullish pkgJson"
  shows "read_manifest e f =
     Inr (get_prop pkgJson ''name'', get_prop pkgJson ''version'', get_prop pkgJson ''description'')"
  using assms by (simp add: read_manifest_def get_member_def)

lemma read_manifest_part_002_ok:
  assumes "readJson e f (path_join [cwd e, ''package.json'']) = Inr pkgJson" and "\<not> nullish pkgJson"
  shows "read_manifest_part_002 e f =
     Inr (get_prop pkgJson ''name'', get_prop pkgJson ''name'', get_prop pkgJson ''description'')"
  using assms by (simp add: read_manifest_part_002_def get_member_def)

text \<open>
  In \<open>src/flam.js\<close> the \<open>version\<close> field of the upload is the manifest's \<open>version\<close>; in
  \<open>src/unnamed/part_002\<close> it is the manifest's \<open>name\<close>.
\<close>

lemma publish_version_field:
  assumes "truthy (loadApiKey e (files w))"
    and "readJson e (files w) (path_join [cwd e, ''package.json'']) = Inr pkgJson"
    and "\<not> nullish pkgJson"
    and "publish_form e filePath (get_prop pkgJson ''name'') (get_prop pkgJson ''version'')
           (get_prop pkgJson ''description'') = Inr form"
  shows "requests (publish e w filePath) = requests w @ [publish_request (loadApiKey e (files w)) form]"
  using assms by (simp add: publish_def publish_with_requests read_manifest_ok)

lemma publish_part_002_version_field:
  assumes "truthy (loadApiKey e (files w))"
    and "readJson e (files w) (path_join [cwd e, ''package.json'']) = Inr pkgJson"
    and "\<not> nullish pkgJson"
    and "publish_form e filePath (get_prop pkgJson ''name'') (get_prop pkgJson ''name'')
           (get_prop pkgJson ''description'') = Inr form"
  shows "requests (publish_part_002 e w filePath) =
     requests w @ [publish_request (loadApiKey e (files w)) form]"
  using assms by (simp add: publish_part_002_def publish_with_requests read_manifest_part_002_ok)

lemma demo_manifest_path: "path_join [cwd (demo_env registry), ''package.json''] = ''/w/package.json''"
  by (simp add: demo_env_def path_join_def path_normalize_def normalizeString_def normalize_step_def)

lemma publisher_key: "loadApiKey (demo_env registry) (files publisher_world) = Str ''key-1''"
  by (simp add: loadApiKey_def readJson_def demo_config_path publisher_world_def publisher_files_def
      get_member_def nullish_def) (simp add: demo_env_def)

lemma publisher_manifest:
  "readJson (demo_env registry) (files publisher_world) (path_join [cwd (demo_env registry), ''package.json''])
     = Inr (Obj [(''name'', Str ''foo''), (''version'', Str ''1.0.0''), (''description'', Str ''a package'')])"
  by (simp add: demo_manifest_path readJson_def publisher_world_def publisher_files_def)
     (simp add: demo_env_def)

text \<open>
  C1, at the manifest \<open>{name: foo, version: 1.0.0}\<close>: the variant \<open>src/unnamed/part_002\<close>
  uploads \<open>version = foo\<close>, where \<open>src/flam.js\<close> uploads \<open>version = 1.0.0\<close>.
\<close>

theorem publish_part_002_version_is_name:
  "payload (last (requests (publish_part_002 (demo_env demo_registry) publisher_world ''pkg.zip''))) =
     Form_body [(''packageName'', Field (Str ''foo'')), (''version'', Field (Str ''foo'')),
                (''description'', Field (Str ''a package'')), (''package'', File_stream ''pkg.zip'')] \<and>
   payload (last (requests (publish (demo_env demo_registry) publisher_world ''pkg.zip''))) =
     Form_body [(''packageName'', Field (Str ''foo'')), (''version'', Field (Str ''1.0.0'')),
                (''description'', Field (Str ''a package'')), (''package'', File_stream ''pkg.zip'')]"
proof -
  let ?manifest = "Obj [(''name'', Str ''foo''), (''version'', Str ''1.0.0''),
                        (''description'', Str ''a package'')]"
  have key: "truthy (loadApiKey (demo_env demo_registry) (files publisher_world))"
    by (simp add: publisher_key)
  have manifest: "\<not> nullish ?manifest"
    by (simp add: nullish_def)
  have form_part_002:
    "publish_form (demo_env demo_registry) ''pkg.zip'' (get_prop ?manifest ''name'') (get_prop ?manifest ''name'')
       (get_prop ?manifest ''description'') =
     Inr [(''packageName'', Field (Str ''foo'')), (''version'', Field (Str ''foo'')),
          (''description'', Field (Str ''a package'')), (''package'', File_stream ''pkg.zip'')]"
    by (simp add: publish_form_strings)
  have form_flam:
    "publish_form (demo_env demo_registry) ''pkg.zip'' (get_prop ?manifest ''name'') (get_prop ?manifest ''version'')
       (get_prop ?manifest ''description'') =
     Inr [(''packageName'', Field (Str ''foo'')), (''version'', Field (Str ''1.0.0'')),
          (''description'', Field (Str ''a package'')), (''package'', File_stream ''pkg.zip'')]"
    by (simp add: publish_form_strings)
  show ?thesis
    by (simp add: publish_part_002_version_field [OF key publisher_manifest manifest form_part_002]
        publish_version_field [OF key publisher_manifest manifest form_flam]
        publish_request_def post_request_def)
qed

text \<open>
  C3. When the credential store yields nothing usable (\<open>null\<close>, and likewise \<open>undefined\<close>
  or the empty string), publish prints the not-connected message on the error stream and
  does nothing else: no request is made and no file is touched. Both variants of publish
  start with this guard.
\<close>

theorem publish_without_credential:
  "\<not> truthy (loadApiKey e (files w)) \<longrightarrow>
     console (publish e w filePath) = console w @ [(Stderr, msg_not_connected)] \<and>
     requests (publish e w filePath) = requests w \<and>
     files (publish e w filePath) = files w \<and>
     console (publish_part_002 e w filePath) = console w @ [(Stderr, msg_not_connected)] \<and>
     requests (publish_part_002 e w filePath) = requests w \<and>
     files (publish_part_002 e w filePath) = files w"
  by (simp add: publish_def publish_part_002_def publish_with_not_connected console_error_fields)

theorem publish_without_credential_witness:
  "\<not> truthy (loadApiKey (demo_env demo_registry) (files demo_world)) \<and>
   console (publish (demo_env demo_registry) demo_world ''pkg.zip'') =
     console demo_world @ [(Stderr, msg_not_connected)] \<and>
   requests (publish (demo_env demo_registry) demo_world ''pkg.zip'') = requests demo_world \<and>
   files (publish (demo_env demo_registry) demo_world ''pkg.zip'') = files demo_world \<and>
   console (publish_part_002 (demo_env demo_registry) demo_world ''pkg.zip'') =
     console demo_world @ [(Stderr, msg_not_connected)] \<and>
   requests (publish_part_002 (demo_env demo_registry) demo_world ''pkg.zip'') = requests demo_world \<and>
   files (publish_part_002 (demo_env demo_registry) demo_world ''pkg.zip'') = files demo_world"
proof -
  have h: "\<not> truthy (loadApiKey (demo_env demo_registry) (files demo_world))"
    by (simp add: loadApiKey_def readJson_def demo_config_path demo_world_def demo_files_def)
  note c = publish_without_credential [of "demo_env demo_registry" demo_world "''pkg.zip''",
             rule_format, OF h]
  show ?thesis
    by (rule conjI [OF h c])
qed

section \<open>search\<close>



lemma forEach_log_requests: "requests (snd (forEach_log w pkgs)) = requests w"
  by (induction pkgs arbitrary: w) (auto simp: console_log_fields split: sum.splits)




lemma search_requests:
  "requests (search e w query) = requests w @ [search_request query]"
proof -
  have "requests (snd (search_try e w' query)) = requests w' @ [search_request query]" for w'
    by (auto simp: search_try_def axios_get_def axios_request_def console_log_fields
        search_request_def forEach_log_requests split: sum.splits jsval.splits)
  from this [of "console_log w (msg_search_start query)"] show ?thesis
    by (cases "search_try e (console_log w (msg_search_start query)) query")
       (auto simp: search_def console_log_fields console_error_fields split: sum.splits)
qed

text \<open>
  C9, as the code has it: the query is spliced into the URL as it was typed, after
  \<open>?q=\<close>, and that one request is all that search sends.
\<close>

theorem search_request_url:
  "requests (search e w query) =
     requests w @ [get_request (API_URL @ ''/packages/search?q='' @ query)]"
  using search_requests [of e w query] by (simp only: search_request_def)

text \<open>
  C9 as stated fails for the query \<open>a&b\<close>: the URL requested ends in \<open>?q=a&b\<close>, where
  URL encoding gives \<open>a%26b\<close>.
\<close>

theorem search_query_not_encoded:
  "url (last (requests (search (demo_env demo_registry) demo_world ''a&b''))) =
     ''https://sarver-fullstack-4.onrender.com/packages/search?q=a&b'' \<and>
   spec_url_encode ''a&b'' = ''a%26b'' \<and>
   url (last (requests (search (demo_env demo_registry) demo_world ''a&b''))) \<noteq>
     API_URL @ ''/packages/search?q='' @ spec_url_encode ''a&b''"
proof -
  have enc: "spec_url_encode ''a&b'' = ''a%26b''"
    by (simp add: spec_url_encode_def percent_encode_char_def uri_unreserved_def upper_hex_digit_def)
  have sent: "url (last (requests (search (demo_env demo_registry) demo_world ''a&b''))) =
     ''https://sarver-fullstack-4.onrender.com/packages/search?q=a&b''"
    by (simp add: search_requests search_request_def get_request_def API_URL_def)
  show ?thesis
    by (simp only: enc sent) (simp add: API_URL_def)
qed






lemma http_ok_200: "http_ok 200"
  by (simp add: http_ok_def)


section \<open>install\<close>

lemma install_details_failed:
  assumes "axios_settle (server e (requests w) (details_request packageName)) = Inl err"
  shows "install e w packageName =
     w\<lparr>requests := requests w @ [details_request packageName],
       console := console w @ [(Stdout, msg_install_start packageName),
         (Stderr, install_error_prefix @ error_text err (msg_not_found packageName))]\<rparr>"
  using assms
  by (simp add: install_def install_try_def axios_get_def axios_request_def details_request_def
      console_log_def console_error_def)


lemma install_written:
  assumes "server e (requests w) (details_request packageName) = Reply s1 details" and "http_ok s1"
    and "\<not> nullish details"
    and "server_stream e (requests w @ [details_request packageName])
           (download_request packageName (get_prop details ''version'')) = Reply s2 bytes"
    and "http_ok s2"
    and "ensureDir e (files w) (install_dir e) = (Inr (), f1)"
    and "write_stream e f1 (archive_path e packageName (get_prop details ''version'')) bytes = (res, f2)"
  shows "install e w packageName =
     w\<lparr>files := f2,
       requests := requests w @ [details_request packageName,
                                  download_request packageName (get_prop details ''version'')],
       console := console w @ [(Stdout, msg_install_start packageName),
         (Stdout, msg_downloading packageName (get_prop details ''version'')),
         (case res of
            Inl err \<Rightarrow> (Stderr, install_error_prefix @ error_text err (msg_not_found packageName))
          | Inr u \<Rightarrow> (Stdout, msg_installed packageName))]\<rparr>"
  using assms
  by (cases res)
     (simp_all add: install_def install_try_def axios_get_def axios_request_def axios_settle_def
      axios_get_stream_def axios_request_stream_def axios_settle_stream_def
      details_request_def download_request_def install_dir_def archive_path_def
      destructure_def console_log_def console_error_def Let_def)

lemma axios_settle_stream_Inr:
  "axios_settle_stream r = Inr b \<Longrightarrow> \<exists>status. r = Reply status b \<and> http_ok status"
  by (cases r) (auto simp: axios_settle_stream_def split: if_splits)


text \<open>A run of install that ends with the success line went through every step.\<close>

lemma install_succeeded:
  assumes "last (console (install e w packageName)) = (Stdout, msg_installed packageName)"
  shows "\<exists>s1 details s2 bytes f1 f2.
     server e (requests w) (details_request packageName) = Reply s1 details \<and> http_ok s1 \<and>
     \<not> nullish details \<and>
     server_stream e (requests w @ [details_request packageName])
       (download_request packageName (get_prop details ''version'')) = Reply s2 bytes \<and> http_ok s2 \<and>
     ensureDir e (files w) (install_dir e) = (Inr (), f1) \<and>
     write_stream e f1 (archive_path e packageName (get_prop details ''version'')) bytes = (Inr (), f2) \<and>
     files (install e w packageName) = f2"
proof -
  obtain res w' where tried: "install_try e (console_log w (msg_install_start packageName)) packageName = (res, w')"
    by (cases "install_try e (console_log w (msg_install_start packageName)) packageName")
  show ?thesis
  proof (cases res)
    case (Inl err)
    with tried assms show ?thesis
      by (simp add: install_def console_error_fields)
  next
    case (Inr u)
    with tried have inst: "install e w packageName = w'"
      by (simp add: install_def)
    from tried Inr show ?thesis
      unfolding inst install_try_def axios_get_def axios_request_def
        axios_get_stream_def axios_request_stream_def
        details_request_def download_request_def install_dir_def archive_path_def
      by (auto simp: console_log_fields destructure_def Let_def
          split: sum.splits prod.splits if_splits
          dest!: axios_settle_Inr axios_settle_stream_Inr)
  qed
qed

lemma mkdirs_keeps_files:
  "mkdirs e f ds = (res, f') \<Longrightarrow> (f' p = Some (File c)) = (f p = Some (File c))"
proof (induction ds arbitrary: f)
  case Nil
  then show ?case by simp
next
  case (Cons d ds)
  show ?case
  proof (cases "f d")
    case None
    show ?thesis
    proof (cases "write_denied e d")
      case True
      with None Cons.prems show ?thesis by simp
    next
      case False
      with None Cons.prems have "mkdirs e (f(d \<mapsto> Dir)) ds = (res, f')" by simp
      from Cons.IH [OF this] None show ?thesis by (auto split: if_splits)
    qed
  next
    case (Some n)
    with Cons show ?thesis by (cases n) auto
  qed
qed

lemma write_stream_ok:
  "write_stream e f p bytes = (Inr (), f') \<Longrightarrow> f' = f(p \<mapsto> File (Bytes bytes))"
  by (auto simp: write_stream_def write_file_def split: option.splits if_splits prod.splits)

lemma write_stream_fault:
  assumes "open_for_write e f p = None" and "write_fault e p = Some (k, msg)" and "k < length bytes"
  shows "write_stream e f p bytes = (Inl (JsError None msg), f(p \<mapsto> File (Bytes (take k bytes))))"
  using assms by (simp add: write_stream_def write_file_def)

lemma archive_path_plain:
  assumes "CHR ''/'' \<notin> set packageName" and "CHR ''/'' \<notin> set (to_string version)"
  shows "archive_path e packageName version =
     install_dir e @ ''/'' @ packageName @ ''-'' @ to_string version @ ''.zip''"
  unfolding archive_path_def install_dir_def
  by (rule path_join_child [OF plain_segment_flam_modules plain_segment_zip [OF assms]])

lemma error_text_no_response: "error_text (JsError None msg) fallback = fallback"
  by (simp add: error_text_def or_else_def)

text \<open>
  C5. When the details lookup fails, install stops there: the details request is the
  only request, one error line is printed, and the file system is what it was, so
  neither the installation directory nor any archive file has been created.
\<close>

theorem install_lookup_failure_creates_nothing:
  "failed (server e (requests w) (details_request packageName)) \<longrightarrow>
     files (install e w packageName) = files w \<and>
     requests (install e w packageName) = requests w @ [details_request packageName] \<and>
     butlast (console (install e w packageName)) = console w @ [(Stdout, msg_install_start packageName)] \<and>
     fst (last (console (install e w packageName))) = Stderr"
proof
  assume "failed (server e (requests w) (details_request packageName))"
  then obtain err where "axios_settle (server e (requests w) (details_request packageName)) = Inl err"
    using axios_settle_failed by blast
  from install_details_failed [OF this]
  show "files (install e w packageName) = files w \<and>
     requests (install e w packageName) = requests w @ [details_request packageName] \<and>
     butlast (console (install e w packageName)) = console w @ [(Stdout, msg_install_start packageName)] \<and>
     fst (last (console (install e w packageName))) = Stderr"
    by (simp add: butlast_append)
qed

lemma demo_details_unknown:
  "server (demo_env demo_registry) (requests demo_world) (details_request ''nosuchpkg'') =
     Reply 404 (Obj [(''error'', Str ''Not found'')])"
  by (simp add: demo_env_def demo_registry_def details_request_def get_request_def API_URL_def)

theorem install_lookup_failure_creates_nothing_witness:
  "failed (server (demo_env demo_registry) (requests demo_world) (details_request ''nosuchpkg'')) \<and>
   files (install (demo_env demo_registry) demo_world ''nosuchpkg'') = files demo_world \<and>
   requests (install (demo_env demo_registry) demo_world ''nosuchpkg'') =
     requests demo_world @ [details_request ''nosuchpkg''] \<and>
   butlast (console (install (demo_env demo_registry) demo_world ''nosuchpkg'')) =
     console demo_world @ [(Stdout, msg_install_start ''nosuchpkg'')] \<and>
   fst (last (console (install (demo_env demo_registry) demo_world ''nosuchpkg''))) = Stderr"
proof -
  have h: "failed (server (demo_env demo_registry) (requests demo_world) (details_request ''nosuchpkg''))"
    by (simp add: demo_details_unknown failed_def http_ok_def)
  show ?thesis
    by (rule conjI [OF h install_lookup_failure_creates_nothing [rule_format, OF h]])
qed

lemma install_dir_w: "cwd e = ''/w'' \<Longrightarrow> install_dir e = ''/w/flam_modules''"
  by (simp add: install_dir_def path_join_def path_normalize_def normalizeString_def normalize_step_def)

lemma ensureDir_w:
  "\<not> write_denied e ''/w/flam_modules'' \<Longrightarrow>
     ensureDir e demo_files ''/w/flam_modules'' = (Inr (), demo_files(''/w/flam_modules'' \<mapsto> Dir))"
  by (simp add: ensureDir_def dir_chain_def demo_files_def)

lemma archive_path_w:
  "cwd e = ''/w'' \<Longrightarrow> archive_path e ''foo'' (Str ''1.2.0'') = ''/w/flam_modules/foo-1.2.0.zip''"
  by (simp add: archive_path_plain install_dir_w)

lemma archive_path_escape:
  "cwd e = ''/w'' \<Longrightarrow> archive_path e ''../x'' (Str ''1.0.0'') = ''/w/x-1.0.0.zip''"
  by (simp add: archive_path_def install_dir_w path_join_def path_normalize_def normalizeString_def
      normalize_step_def)

lemma open_archive_w:
  "\<not> write_denied e ''/w/flam_modules/foo-1.2.0.zip'' \<Longrightarrow>
     open_for_write e (demo_files(''/w/flam_modules'' \<mapsto> Dir)) ''/w/flam_modules/foo-1.2.0.zip'' = None"
  by (simp add: open_for_write_def parent_dir_def is_dir_def demo_files_def)

lemma open_escape_w:
  "\<not> write_denied e ''/w/x-1.0.0.zip'' \<Longrightarrow>
     open_for_write e (demo_files(''/w/flam_modules'' \<mapsto> Dir)) ''/w/x-1.0.0.zip'' = None"
  by (simp add: open_for_write_def parent_dir_def is_dir_def demo_files_def)

lemma demo_details_foo:
  "server (demo_env demo_registry) (requests demo_world) (details_request ''foo'') =
     Reply 200 (Obj [(''version'', Str ''1.2.0'')])"
  by (simp add: demo_env_def demo_registry_def details_request_def get_request_def API_URL_def)

lemma full_disk_details_foo:
  "server (full_disk_env demo_registry) (requests demo_world) (details_request ''foo'') =
     Reply 200 (Obj [(''version'', Str ''1.2.0'')])"
  by (simp add: full_disk_env_def demo_env_def demo_registry_def details_request_def get_request_def
      API_URL_def)

lemma demo_stream:
  "server_stream (demo_env registry) history r = Reply 200 ''PK-archive''"
  "server_stream (full_disk_env registry) history r = Reply 200 ''PK-archive''"
  by (simp_all add: full_disk_env_def demo_env_def)

lemma demo_cwd: "cwd (demo_env registry) = ''/w''" "cwd (full_disk_env registry) = ''/w''"
  by (simp_all add: full_disk_env_def demo_env_def)

lemma demo_write_allowed:
  "\<not> write_denied (demo_env registry) p" "\<not> write_denied (full_disk_env registry) p"
  by (simp_all add: full_disk_env_def demo_env_def)

lemma not_nullish_Obj: "\<not> nullish (Obj props)"
  by (simp add: nullish_def)

text \<open>
  A write error leaves the part written. When both requests succeed, the installation
  directory can be ensured, the archive file can be opened, and the disk fails after \<open>k\<close>
  bytes of a longer body, then install prints its error line (the error carries no
  server answer, so the line names the package as not found) and leaves the first \<open>k\<close>
  bytes in the file it opened; nothing removes them. When name and version hold no \<open>/\<close>
  that file lies directly in the installation directory.
\<close>

lemma install_write_error_keeps_partial_file:
  "server e (requests w) (details_request packageName) = Reply s1 details \<and> http_ok s1 \<and>
   \<not> nullish details \<and>
   server_stream e (requests w @ [details_request packageName])
     (download_request packageName (get_prop details ''version'')) = Reply s2 bytes \<and> http_ok s2 \<and>
   ensureDir e (files w) (install_dir e) = (Inr (), f1) \<and>
   open_for_write e f1 (archive_path e packageName (get_prop details ''version'')) = None \<and>
   write_fault e (archive_path e packageName (get_prop details ''version'')) = Some (k, msg) \<and>
   k < length bytes \<longrightarrow>
     files (install e w packageName) =
       f1(archive_path e packageName (get_prop details ''version'') \<mapsto> File (Bytes (take k bytes))) \<and>
     console (install e w packageName) =
       console w @ [(Stdout, msg_install_start packageName),
                    (Stdout, msg_downloading packageName (get_prop details ''version'')),
                    (Stderr, install_error_prefix @ msg_not_found packageName)] \<and>
     (CHR ''/'' \<notin> set packageName \<and> CHR ''/'' \<notin> set (to_string (get_prop details ''version'')) \<longrightarrow>
        archive_path e packageName (get_prop details ''version'') =
          install_dir e @ ''/'' @ packageName @ ''-'' @ to_string (get_prop details ''version'') @ ''.zip'')"
proof (intro impI, elim conjE)
  assume details: "server e (requests w) (details_request packageName) = Reply s1 details"
    and ok1: "http_ok s1" and nn: "\<not> nullish details"
    and download: "server_stream e (requests w @ [details_request packageName])
       (download_request packageName (get_prop details ''version'')) = Reply s2 bytes"
    and ok2: "http_ok s2"
    and dir: "ensureDir e (files w) (install_dir e) = (Inr (), f1)"
    and opened: "open_for_write e f1 (archive_path e packageName (get_prop details ''version'')) = None"
    and fault: "write_fault e (archive_path e packageName (get_prop details ''version'')) = Some (k, msg)"
    and short: "k < length bytes"
  note written = install_written [OF details ok1 nn download ok2 dir
      write_stream_fault [OF opened fault short]]
  show "files (install e w packageName) =
       f1(archive_path e packageName (get_prop details ''version'') \<mapsto> File (Bytes (take k bytes))) \<and>
     console (install e w packageName) =
       console w @ [(Stdout, msg_install_start packageName),
                    (Stdout, msg_downloading packageName (get_prop details ''version'')),
                    (Stderr, install_error_prefix @ msg_not_found packageName)] \<and>
     (CHR ''/'' \<notin> set packageName \<and> CHR ''/'' \<notin> set (to_string (get_prop details ''version'')) \<longrightarrow>
        archive_path e packageName (get_prop details ''version'') =
          install_dir e @ ''/'' @ packageName @ ''-'' @ to_string (get_prop details ''version'') @ ''.zip'')"
    unfolding written by (simp add: error_text_no_response archive_path_plain)
qed

lemma demo_install_full_disk:
  "files (install (full_disk_env demo_registry) demo_world ''foo'') =
     (demo_files(''/w/flam_modules'' \<mapsto> Dir))
       (''/w/flam_modules/foo-1.2.0.zip'' \<mapsto> File (Bytes ''PK-'')) \<and>
   console (install (full_disk_env demo_registry) demo_world ''foo'') =
     [(Stdout, msg_install_start ''foo''),
      (Stdout, msg_downloading ''foo'' (Str ''1.2.0'')),
      (Stderr, install_error_prefix @ msg_not_found ''foo'')] \<and>
   archive_path (full_disk_env demo_registry) ''foo'' (Str ''1.2.0'') = ''/w/flam_modules/foo-1.2.0.zip''"
proof -
  let ?E = "full_disk_env demo_registry"
  let ?details = "Obj [(''version'', Str ''1.2.0'')]"
  have version: "get_prop ?details ''version'' = Str ''1.2.0''" by simp
  have path: "archive_path ?E ''foo'' (get_prop ?details ''version'') = ''/w/flam_modules/foo-1.2.0.zip''"
    by (simp add: archive_path_w demo_cwd)
  have h1: "server ?E (requests demo_world) (details_request ''foo'') = Reply 200 ?details"
    by (rule full_disk_details_foo)
  have h2: "server_stream ?E (requests demo_world @ [details_request ''foo''])
              (download_request ''foo'' (get_prop ?details ''version'')) = Reply 200 ''PK-archive''"
    by (rule demo_stream)
  have h3: "ensureDir ?E (files demo_world) (install_dir ?E) =
              (Inr (), demo_files(''/w/flam_modules'' \<mapsto> Dir))"
    by (simp add: install_dir_w demo_cwd ensureDir_w demo_write_allowed demo_world_def)
  have h4: "open_for_write ?E (demo_files(''/w/flam_modules'' \<mapsto> Dir))
              (archive_path ?E ''foo'' (get_prop ?details ''version'')) = None"
    unfolding path by (rule open_archive_w [OF demo_write_allowed(2)])
  have h5: "write_fault ?E (archive_path ?E ''foo'' (get_prop ?details ''version'')) =
              Some (3, ''ENOSPC: no space left on device, write'')"
    by (simp add: full_disk_env_def)
  have h6: "3 < length ''PK-archive''" by simp
  note c = install_write_error_keeps_partial_file [rule_format,
      OF conjI [OF h1 conjI [OF http_ok_200 conjI [OF not_nullish_Obj conjI [OF h2 conjI [OF http_ok_200
         conjI [OF h3 conjI [OF h4 conjI [OF h5 h6]]]]]]]]]
  have r1: "files (install ?E demo_world ''foo'') =
     (demo_files(''/w/flam_modules'' \<mapsto> Dir))
       (''/w/flam_modules/foo-1.2.0.zip'' \<mapsto> File (Bytes ''PK-''))"
    using c [THEN conjunct1] unfolding path by simp
  have r2: "console (install ?E demo_world ''foo'') =
     [(Stdout, msg_install_start ''foo''),
      (Stdout, msg_downloading ''foo'' (Str ''1.2.0'')),
      (Stderr, install_error_prefix @ msg_not_found ''foo'')]"
    using c [THEN conjunct2, THEN conjunct1] by (simp add: demo_world_def)
  have r3: "archive_path ?E ''foo'' (Str ''1.2.0'') = ''/w/flam_modules/foo-1.2.0.zip''"
    using path by simp
  show ?thesis
    by (intro conjI) (rule r1 r2 r3)+
qed

lemma obliging_details:
  "server (full_disk_env obliging_registry) history r = Reply 200 (Obj [(''version'', Str ''1.0.0'')])"
  "server (demo_env obliging_registry) history r = Reply 200 (Obj [(''version'', Str ''1.0.0'')])"
  by (simp_all add: full_disk_env_def demo_env_def obliging_registry_def)

text \<open>
  C10, at the package name \<open>../x\<close> on a disk that fails after three bytes: install
  reports the failure and removes nothing, but the partial file it leaves is
  \<open>/w/x-1.0.0.zip\<close>, in the working directory \<open>/w\<close>, not inside the installation
  directory \<open>/w/flam_modules\<close>.
\<close>

theorem partial_file_outside_install_dir:
  "install_dir (full_disk_env obliging_registry) = ''/w/flam_modules'' \<and>
   fst (last (console (install (full_disk_env obliging_registry) demo_world ''../x''))) = Stderr \<and>
   files (install (full_disk_env obliging_registry) demo_world ''../x'') ''/w/x-1.0.0.zip'' =
     Some (File (Bytes ''PK-'')) \<and>
   parent_dir ''/w/x-1.0.0.zip'' = ''/w'' \<and>
   files (install (full_disk_env obliging_registry) demo_world ''../x'')
     ''/w/flam_modules/../x-1.0.0.zip'' = None"
proof -
  let ?E = "full_disk_env obliging_registry"
  let ?details = "Obj [(''version'', Str ''1.0.0'')]"
  have path: "archive_path ?E ''../x'' (get_prop ?details ''version'') = ''/w/x-1.0.0.zip''"
    by (simp add: archive_path_escape demo_cwd)
  have h3: "ensureDir ?E (files demo_world) (install_dir ?E) =
              (Inr (), demo_files(''/w/flam_modules'' \<mapsto> Dir))"
    by (simp add: install_dir_w demo_cwd ensureDir_w demo_write_allowed demo_world_def)
  have h4: "open_for_write ?E (demo_files(''/w/flam_modules'' \<mapsto> Dir))
              (archive_path ?E ''../x'' (get_prop ?details ''version'')) = None"
    unfolding path by (rule open_escape_w [OF demo_write_allowed(2)])
  have h5: "write_fault ?E (archive_path ?E ''../x'' (get_prop ?details ''version'')) =
              Some (3, ''ENOSPC: no space left on device, write'')"
    by (simp add: full_disk_env_def)
  have h6: "3 < length ''PK-archive''" by simp
  note written = install_written [OF obliging_details(1) http_ok_200 not_nullish_Obj demo_stream(2)
      http_ok_200 h3 write_stream_fault [OF h4 h5 h6]]
  show ?thesis
    unfolding written path by (simp add: install_dir_w demo_cwd demo_files_def parent_dir_def)
qed

text \<open>
  Where the archive goes for ordinary names. Take a run of install that ends with the
  success line, for a package name and a resolved version string that hold no \<open>/\<close>.
  Afterwards the file \<open><packageName>-<version>.zip\<close> directly inside the installation
  directory holds downloaded bytes, and every other path holds a file exactly when it did
  before, with the same content: at most one file is new, and it is that one.
\<close>

lemma install_creates_one_archive:
  "last (console (install e w packageName)) = (Stdout, msg_installed packageName) \<and>
   server e (requests w) (details_request packageName) = Reply status details \<and>
   get_prop details ''version'' = Str v \<and>
   CHR ''/'' \<notin> set packageName \<and> CHR ''/'' \<notin> set v \<longrightarrow>
     (\<exists>bytes. files (install e w packageName)
                 (install_dir e @ ''/'' @ packageName @ ''-'' @ v @ ''.zip'') = Some (File (Bytes bytes))) \<and>
     (\<forall>p c. p \<noteq> install_dir e @ ''/'' @ packageName @ ''-'' @ v @ ''.zip'' \<longrightarrow>
        (files (install e w packageName) p = Some (File c)) = (files w p = Some (File c)))"
proof (intro impI, elim conjE)
  assume success: "last (console (install e w packageName)) = (Stdout, msg_installed packageName)"
    and details: "server e (requests w) (details_request packageName) = Reply status details"
    and version: "get_prop details ''version'' = Str v"
    and plain: "CHR ''/'' \<notin> set packageName" "CHR ''/'' \<notin> set v"
  from install_succeeded [OF success] details version
  obtain bytes f1 f2 where
    dir: "ensureDir e (files w) (install_dir e) = (Inr (), f1)"
    and written: "write_stream e f1 (archive_path e packageName (Str v)) bytes = (Inr (), f2)"
    and after: "files (install e w packageName) = f2"
    by auto
  have path: "archive_path e packageName (Str v) = install_dir e @ ''/'' @ packageName @ ''-'' @ v @ ''.zip''"
    using archive_path_plain [of packageName "Str v" e] plain by simp
  have f2: "f2 = f1(install_dir e @ ''/'' @ packageName @ ''-'' @ v @ ''.zip'' \<mapsto> File (Bytes bytes))"
    using write_stream_ok [OF written] by (simp add: path)
  have kept: "(f1 p = Some (File c)) = (files w p = Some (File c))" for p c
    using dir by (simp add: ensureDir_def mkdirs_keeps_files)
  show "(\<exists>bytes. files (install e w packageName)
                 (install_dir e @ ''/'' @ packageName @ ''-'' @ v @ ''.zip'') = Some (File (Bytes bytes))) \<and>
     (\<forall>p c. p \<noteq> install_dir e @ ''/'' @ packageName @ ''-'' @ v @ ''.zip'' \<longrightarrow>
        (files (install e w packageName) p = Some (File c)) = (files w p = Some (File c)))"
    by (simp add: after f2 kept)
qed

lemma demo_install_foo:
  "install (demo_env demo_registry) demo_world ''foo'' =
     demo_world\<lparr>files := (demo_files(''/w/flam_modules'' \<mapsto> Dir))
                   (''/w/flam_modules/foo-1.2.0.zip'' \<mapsto> File (Bytes ''PK-archive'')),
       requests := requests demo_world @ [details_request ''foo'', download_request ''foo'' (Str ''1.2.0'')],
       console := console demo_world @ [(Stdout, msg_install_start ''foo''),
         (Stdout, msg_downloading ''foo'' (Str ''1.2.0'')), (Stdout, msg_installed ''foo'')]\<rparr>"
proof -
  let ?E = "demo_env demo_registry"
  let ?details = "Obj [(''version'', Str ''1.2.0'')]"
  have path: "archive_path ?E ''foo'' (get_prop ?details ''version'') = ''/w/flam_modules/foo-1.2.0.zip''"
    by (simp add: archive_path_w demo_cwd)
  have dir: "ensureDir ?E (files demo_world) (install_dir ?E) =
              (Inr (), demo_files(''/w/flam_modules'' \<mapsto> Dir))"
    by (simp add: install_dir_w demo_cwd ensureDir_w demo_write_allowed demo_world_def)
  have wr: "write_stream ?E (demo_files(''/w/flam_modules'' \<mapsto> Dir))
              (archive_path ?E ''foo'' (get_prop ?details ''version'')) ''PK-archive'' =
            (Inr (), (demo_files(''/w/flam_modules'' \<mapsto> Dir))
                       (''/w/flam_modules/foo-1.2.0.zip'' \<mapsto> File (Bytes ''PK-archive'')))"
    unfolding path
    by (simp add: write_stream_def write_file_def open_archive_w [OF demo_write_allowed(1)])
       (simp add: demo_env_def)
  from install_written [OF demo_details_foo http_ok_200 not_nullish_Obj demo_stream(1) http_ok_200 dir wr]
  show ?thesis by simp
qed

lemma demo_install_one_archive:
  "last (console (install (demo_env demo_registry) demo_world ''foo'')) = (Stdout, msg_installed ''foo'') \<and>
   (\<exists>bytes. files (install (demo_env demo_registry) demo_world ''foo'')
               (install_dir (demo_env demo_registry) @ ''/'' @ ''foo'' @ ''-'' @ ''1.2.0'' @ ''.zip'') =
             Some (File (Bytes bytes))) \<and>
   (\<forall>p c. p = install_dir (demo_env demo_registry) @ ''/'' @ ''foo'' @ ''-'' @ ''1.2.0'' @ ''.zip'' \<or>
      (files (install (demo_env demo_registry) demo_world ''foo'') p = Some (File c)) =
      (files demo_world p = Some (File c)))"
proof -
  have h1: "last (console (install (demo_env demo_registry) demo_world ''foo'')) = (Stdout, msg_installed ''foo'')"
    by (simp add: demo_install_foo)
  have h3: "get_prop (Obj [(''version'', Str ''1.2.0'')]) ''version'' = Str ''1.2.0''" by simp
  have h4: "CHR ''/'' \<notin> set ''foo''" by simp
  have h5: "CHR ''/'' \<notin> set ''1.2.0''" by simp
  note c = install_creates_one_archive [rule_format,
      OF conjI [OF h1 conjI [OF demo_details_foo conjI [OF h3 conjI [OF h4 h5]]]]]
  from c h1 show ?thesis by blast
qed

lemma archive_path_hostile:
  "cwd e = ''/w'' \<Longrightarrow> archive_path e ''foo'' (Str ''/../../x'') = ''/w/x.zip''"
  by (simp add: archive_path_def install_dir_w path_join_def path_normalize_def normalizeString_def
      normalize_step_def)

lemma open_hostile_w:
  "\<not> write_denied e ''/w/x.zip'' \<Longrightarrow>
     open_for_write e (demo_files(''/w/flam_modules'' \<mapsto> Dir)) ''/w/x.zip'' = None"
  by (simp add: open_for_write_def parent_dir_def is_dir_def demo_files_def)

lemma hostile_details:
  "server (demo_env hostile_registry) history r = Reply 200 (Obj [(''version'', Str ''/../../x'')])"
  by (simp add: demo_env_def hostile_registry_def)

lemma demo_ensureDir:
  "ensureDir (demo_env registry) (files demo_world) (install_dir (demo_env registry)) =
     (Inr (), demo_files(''/w/flam_modules'' \<mapsto> Dir))"
  by (simp add: install_dir_w demo_cwd ensureDir_w demo_write_allowed demo_world_def)

lemma demo_install_escape:
  "install (demo_env obliging_registry) demo_world ''../x'' =
     demo_world\<lparr>files := (demo_files(''/w/flam_modules'' \<mapsto> Dir))
                   (''/w/x-1.0.0.zip'' \<mapsto> File (Bytes ''PK-archive'')),
       requests := requests demo_world @ [details_request ''../x'', download_request ''../x'' (Str ''1.0.0'')],
       console := console demo_world @ [(Stdout, msg_install_start ''../x''),
         (Stdout, msg_downloading ''../x'' (Str ''1.0.0'')), (Stdout, msg_installed ''../x'')]\<rparr>"
proof -
  let ?E = "demo_env obliging_registry"
  let ?details = "Obj [(''version'', Str ''1.0.0'')]"
  have path: "archive_path ?E ''../x'' (get_prop ?details ''version'') = ''/w/x-1.0.0.zip''"
    by (simp add: archive_path_escape demo_cwd)
  have wr: "write_stream ?E (demo_files(''/w/flam_modules'' \<mapsto> Dir))
              (archive_path ?E ''../x'' (get_prop ?details ''version'')) ''PK-archive'' =
            (Inr (), (demo_files(''/w/flam_modules'' \<mapsto> Dir))
                       (''/w/x-1.0.0.zip'' \<mapsto> File (Bytes ''PK-archive'')))"
    unfolding path
    by (simp add: write_stream_def write_file_def open_escape_w [OF demo_write_allowed(1)])
       (simp add: demo_env_def)
  from install_written [OF obliging_details(2) http_ok_200 not_nullish_Obj demo_stream(1)
      http_ok_200 demo_ensureDir wr]
  show ?thesis by simp
qed

lemma demo_install_hostile:
  "install (demo_env hostile_registry) demo_world ''foo'' =
     demo_world\<lparr>files := (demo_files(''/w/flam_modules'' \<mapsto> Dir))
                   (''/w/x.zip'' \<mapsto> File (Bytes ''PK-archive'')),
       requests := requests demo_world @ [details_request ''foo'', download_request ''foo'' (Str ''/../../x'')],
       console := console demo_world @ [(Stdout, msg_install_start ''foo''),
         (Stdout, msg_downloading ''foo'' (Str ''/../../x'')), (Stdout, msg_installed ''foo'')]\<rparr>"
proof -
  let ?E = "demo_env hostile_registry"
  let ?details = "Obj [(''version'', Str ''/../../x'')]"
  have path: "archive_path ?E ''foo'' (get_prop ?details ''version'') = ''/w/x.zip''"
    by (simp add: archive_path_hostile demo_cwd)
  have wr: "write_stream ?E (demo_files(''/w/flam_modules'' \<mapsto> Dir))
              (archive_path ?E ''foo'' (get_prop ?details ''version'')) ''PK-archive'' =
            (Inr (), (demo_files(''/w/flam_modules'' \<mapsto> Dir))
                       (''/w/x.zip'' \<mapsto> File (Bytes ''PK-archive'')))"
    unfolding path
    by (simp add: write_stream_def write_file_def open_hostile_w [OF demo_write_allowed(1)])
       (simp add: demo_env_def)
  from install_written [OF hostile_details http_ok_200 not_nullish_Obj demo_stream(1)
      http_ok_200 demo_ensureDir wr]
  show ?thesis by simp
qed

text \<open>
  C7, at the package name \<open>../x\<close>, and at the package \<open>foo\<close> when the registry resolves
  its version to \<open>/../../x\<close>: install ends with the success line, and the one file it
  has created is \<open>/w/x-1.0.0.zip\<close>, respectively \<open>/w/x.zip\<close>, in the working directory
  \<open>/w\<close>. The installation directory \<open>/w/flam_modules\<close> holds no file under the name
  \<open><packageName>-<version>.zip\<close>.
\<close>

theorem archive_outside_install_dir:
  "install_dir (demo_env obliging_registry) = ''/w/flam_modules'' \<and>
   last (console (install (demo_env obliging_registry) demo_world ''../x'')) =
     (Stdout, msg_installed ''../x'') \<and>
   files (install (demo_env obliging_registry) demo_world ''../x'') ''/w/x-1.0.0.zip'' =
     Some (File (Bytes ''PK-archive'')) \<and>
   parent_dir ''/w/x-1.0.0.zip'' = ''/w'' \<and>
   files (install (demo_env obliging_registry) demo_world ''../x'')
     (''/w/flam_modules'' @ ''/'' @ ''../x'' @ ''-'' @ ''1.0.0'' @ ''.zip'') = None \<and>
   install_dir (demo_env hostile_registry) = ''/w/flam_modules'' \<and>
   last (console (install (demo_env hostile_registry) demo_world ''foo'')) =
     (Stdout, msg_installed ''foo'') \<and>
   files (install (demo_env hostile_registry) demo_world ''foo'') ''/w/x.zip'' =
     Some (File (Bytes ''PK-archive'')) \<and>
   parent_dir ''/w/x.zip'' = ''/w'' \<and>
   files (install (demo_env hostile_registry) demo_world ''foo'')
     (''/w/flam_modules'' @ ''/'' @ ''foo'' @ ''-'' @ ''/../../x'' @ ''.zip'') = None"
  unfolding demo_install_escape demo_install_hostile
  by (simp add: install_dir_w demo_cwd demo_files_def parent_dir_def)

section \<open>What a failure prints\<close>






































end
